theory Spec2Isabelle
  imports Complex_Main "HOL-Library.Sublist"
begin

section \<open>JavaScript values used by the render effect of App.jsx\<close>

text \<open>
  The only program logic of the repository is the third \<^verbatim>\<open>useEffect\<close> of
  \<^verbatim>\<open>src/App.jsx\<close> (lines 130--325): it empties the viewer's entity collection and
  adds one entity per visible record of the loaded dataset. The effect is modelled by
  explicit state passing over the viewer's entity list.

  JSON numbers are modelled as reals (IEEE rounding is not modelled; the effect only
  halves an elevation and computes \<open>500 + idx * 50\<close>). A field that may be missing
  (or \<^verbatim>\<open>null\<close>) is an \<open>option\<close>. A string is the list of the characters of its
  encoded text.

  \<^verbatim>\<open>String.prototype.toLowerCase\<close> is a built-in of the language and folds every cased
  letter of Unicode. It is not defined here: every function of the model that lower-cases
  a string takes the lower-casing function as its first argument, and every general
  statement below holds for whatever function is passed, the built-in included.
\<close>

type_synonym number = real

text \<open>\<^verbatim>\<open>x || d\<close> for a number that may be missing: \<open>undefined\<close>, \<open>null\<close> and \<open>0\<close> are falsy.\<close>

definition truthy_num :: "number option \<Rightarrow> bool" where
  "truthy_num x = (case x of None \<Rightarrow> False | Some v \<Rightarrow> v \<noteq> 0)"

definition js_or :: "number option \<Rightarrow> number option \<Rightarrow> number option" where
  "js_or x y = (if truthy_num x then x else y)"

definition or_number :: "number option \<Rightarrow> number \<Rightarrow> number" where
  "or_number x d = (case x of None \<Rightarrow> d | Some v \<Rightarrow> if v = 0 then d else v)"

text \<open>\<^verbatim>\<open>x || d\<close> for a string that may be missing: the empty string is falsy.\<close>

definition or_str :: "string option \<Rightarrow> string \<Rightarrow> string" where
  "or_str x d = (case x of None \<Rightarrow> d | Some v \<Rightarrow> if v = [] then d else v)"

text \<open>
  For the concrete examples, whose strings consist of ASCII characters only: on such
  strings the built-in maps the letters \<open>A\<close> to \<open>Z\<close> to \<open>a\<close> to \<open>z\<close> and leaves every
  other character as it is.
\<close>

definition toLowerCase_ascii_char :: "char \<Rightarrow> char" where
  "toLowerCase_ascii_char c =
     (case map_of (zip ''ABCDEFGHIJKLMNOPQRSTUVWXYZ'' ''abcdefghijklmnopqrstuvwxyz'') c of
        Some l \<Rightarrow> l
      | None \<Rightarrow> c)"

definition toLowerCase_ascii :: "string \<Rightarrow> string" where
  "toLowerCase_ascii s = map toLowerCase_ascii_char s"

text \<open>\<^verbatim>\<open>hay.includes(needle)\<close>: the needle occurs at some position of the hay.\<close>

fun js_includes :: "string \<Rightarrow> string \<Rightarrow> bool" where
  "js_includes [] needle = (needle = [])"
| "js_includes (c # cs) needle = (prefix needle (c # cs) \<or> js_includes cs needle)"

text \<open>\<^verbatim>\<open>xs.join(sep)\<close>.\<close>

fun join :: "string \<Rightarrow> string list \<Rightarrow> string" where
  "join sep [] = []"
| "join sep [x] = x"
| "join sep (x # y # ys) = x @ sep @ join sep (y # ys)"

text \<open>
  Property lookup \<^verbatim>\<open>obj[key]\<close> on a plain object: an own property wins; otherwise the
  lookup continues in \<^verbatim>\<open>Object.prototype\<close>, whose members (functions, and the
  prototype object itself for \<^verbatim>\<open>__proto__\<close>) are all truthy; otherwise the result
  is \<^verbatim>\<open>undefined\<close>.
\<close>

definition object_prototype_keys :: "string list" where
  "object_prototype_keys =
     [''constructor'', ''__defineGetter__'', ''__defineSetter__'', ''hasOwnProperty'',
      ''__lookupGetter__'', ''__lookupSetter__'', ''isPrototypeOf'',
      ''propertyIsEnumerable'', ''toString'', ''valueOf'', ''__proto__'',
      ''toLocaleString'']"

datatype 'a property = Own 'a | Inherited | Undefined

definition js_get :: "(string \<rightharpoonup> 'a) \<Rightarrow> string \<Rightarrow> 'a property" where
  "js_get obj key =
     (case obj key of
        Some v \<Rightarrow> Own v
      | None \<Rightarrow> if key \<in> set object_prototype_keys then Inherited else Undefined)"

text \<open>The toggle objects (\<open>layers\<close>, \<open>waypointSources\<close>, \<open>obstacleTypes\<close>) hold booleans.\<close>

type_synonym toggles = "string \<rightharpoonup> bool"

definition truthy :: "bool property \<Rightarrow> bool" where
  "truthy p = (case p of Own b \<Rightarrow> b | Inherited \<Rightarrow> True | Undefined \<Rightarrow> False)"

datatype js_error = TypeError

section \<open>Renderer values\<close>

text \<open>A colour is its CSS string and its alpha channel.\<close>

datatype color = Color string number

definition fromCssColorString :: "string \<Rightarrow> color" where
  "fromCssColorString s = Color s 1"

fun withAlpha :: "color \<Rightarrow> number \<Rightarrow> color" where
  "withAlpha (Color s a) b = Color s b"

definition Color_BLACK :: color where
  "Color_BLACK = fromCssColorString ''#000000''"

definition Color_WHITE :: color where
  "Color_WHITE = fromCssColorString ''#FFFFFF''"

definition COLORS_SID :: color where
  "COLORS_SID = fromCssColorString ''#00C853''"

definition COLORS_STAR :: color where
  "COLORS_STAR = fromCssColorString ''#FF6D00''"

definition COLORS_APPROACH :: color where
  "COLORS_APPROACH = fromCssColorString ''#2979FF''"

definition COLORS_waypoint :: color where
  "COLORS_waypoint = fromCssColorString ''#FFEB3B''"

definition COLORS_obstacle_building :: color where
  "COLORS_obstacle_building = fromCssColorString ''#F44336''"

definition COLORS_obstacle_tower :: color where
  "COLORS_obstacle_tower = fromCssColorString ''#FF5722''"

definition COLORS_obstacle_natural :: color where
  "COLORS_obstacle_natural = fromCssColorString ''#4CAF50''"

definition COLORS_obstacle_tree :: color where
  "COLORS_obstacle_tree = fromCssColorString ''#8BC34A''"

definition COLORS_obstacle_navaid :: color where
  "COLORS_obstacle_navaid = fromCssColorString ''#9C27B0''"

definition COLORS_obstacle_etc :: color where
  "COLORS_obstacle_etc = fromCssColorString ''#607D8B''"

definition COLORS_airspace :: color where
  "COLORS_airspace = withAlpha (fromCssColorString ''#E91E63'') (2 / 10)"

definition COLORS_runway :: color where
  "COLORS_runway = fromCssColorString ''#FFFFFF''"

text \<open>\<^verbatim>\<open>COLORS[procType]\<close>, for the three keys the effect iterates over.\<close>

definition COLORS :: "string \<Rightarrow> color" where
  "COLORS procType =
     (if procType = ''SID'' then COLORS_SID
      else if procType = ''STAR'' then COLORS_STAR
      else COLORS_APPROACH)"

definition OBSTACLE_COLORS :: "string \<rightharpoonup> color" where
  "OBSTACLE_COLORS =
     [''Building'' \<mapsto> COLORS_obstacle_building,
      ''Tower'' \<mapsto> COLORS_obstacle_tower,
      ''Natural'' \<mapsto> COLORS_obstacle_natural,
      ''Tree'' \<mapsto> COLORS_obstacle_tree,
      ''Navaid'' \<mapsto> COLORS_obstacle_navaid,
      ''ETC'' \<mapsto> COLORS_obstacle_etc]"

text \<open>
  \<^verbatim>\<open>Cesium.Cartesian3.fromDegrees(lon, lat, height)\<close>: a position is kept as the three
  arguments it was built from.
\<close>

datatype cartesian3 = fromDegrees number number number

fun height :: "cartesian3 \<Rightarrow> number" where
  "height (fromDegrees lon lat h) = h"

text \<open>\<^verbatim>\<open>Cesium.Cartesian3.fromDegreesArray\<close>: longitude/latitude pairs on the ellipsoid.\<close>

definition fromDegreesArray :: "(number \<times> number) list \<Rightarrow> cartesian3 list" where
  "fromDegreesArray ps = map (\<lambda>p. fromDegrees (fst p) (snd p) 0) ps"

datatype LabelStyle = FILL | OUTLINE | FILL_AND_OUTLINE

datatype VerticalOrigin = CENTER | BOTTOM | BASELINE | TOP

record point_graphics =
  pixelSize :: nat
  point_color :: color
  point_outlineColor :: color
  point_outlineWidth :: nat

record label_graphics =
  label_text :: string
  font :: string
  fillColor :: color
  label_outlineColor :: color
  label_outlineWidth :: nat
  style :: LabelStyle
  verticalOrigin :: VerticalOrigin
  pixelOffset :: "int \<times> int"
  distanceDisplayCondition :: "number \<times> number"

record cylinder_graphics =
  cylinder_length :: number
  topRadius :: number
  bottomRadius :: number
  cylinder_material :: color
  cylinder_outline :: bool
  cylinder_outlineColor :: color

record polygon_graphics =
  hierarchy :: "cartesian3 list"
  polygon_material :: color
  polygon_outline :: bool
  polygon_outlineColor :: color
  extrudedHeight :: number
  polygon_height :: number

datatype material = Solid color | PolylineGlow number color

record polyline_graphics =
  positions :: "cartesian3 list"
  width :: nat
  polyline_material :: material
  clampToGround :: bool

text \<open>
  A template literal is kept as its parts: literal text and string values (\<open>Str\<close>) and
  numbers converted by the language (\<open>Num\<close>).
\<close>

datatype part = Str string | Num number

text \<open>
  The HTML description of an entity is a fixed template; the model keeps the values
  interpolated into it. A number shown as \<^verbatim>\<open>x || 'N/A'\<close> is \<open>None\<close> when it is falsy.
\<close>

datatype description =
    RunwayDescription
  | WaypointDescription string number number number string
  | ObstacleDescription string string number number number
  | AirspaceDescription string number number
  | ProcedureDescription string string string
  | LegDescription string number "number option" "number option"

record entity =
  name :: "part list"
  position :: "cartesian3 option"
  point :: "point_graphics option"
  label :: "label_graphics option"
  cylinder :: "cylinder_graphics option"
  polygon :: "polygon_graphics option"
  polyline :: "polyline_graphics option"
  description :: description

section \<open>The dataset and the filter state\<close>

record waypoint =
  wp_lat :: number
  wp_lon :: number
  wp_altitude :: "number option"
  wp_sources :: "string list"

record obstacle =
  obs_id :: string
  obs_type :: string
  obs_lat :: number
  obs_lon :: number
  obs_elevation :: number

text \<open>A coordinate is the pair \<open>(coord[0], coord[1])\<close>, longitude first.\<close>

type_synonym coord = "number \<times> number"

record airspace_zone =
  as_name :: "string option"
  as_base_alt :: "number option"
  as_top_alt :: "number option"
  as_coordinates :: "coord list list option"

record leg =
  leg_seq :: "number option"
  leg_start_alt :: "number option"
  leg_end_alt :: "number option"
  leg_coordinates :: "coord list option"

record procedure =
  proc_name :: string
  proc_table :: string
  proc_coordinates :: "coord list option"
  proc_legs :: "leg list option"

text \<open>
  \<open>data_waypoints\<close> is \<^verbatim>\<open>Object.entries(data.waypoints)\<close>: the entries of the object in
  enumeration order. \<open>data_procedures\<close> is the object keyed by procedure type.
\<close>

record aviation_data =
  data_waypoints :: "(string \<times> waypoint) list"
  data_obstacles :: "obstacle list"
  data_airspace :: "airspace_zone list option"
  data_procedures :: "string \<rightharpoonup> procedure list"

text \<open>The React state the effect closes over (its dependency list, apart from the data).\<close>

record filter_state =
  layers :: toggles
  waypointSources :: toggles
  obstacleTypes :: toggles
  searchTerm :: string

text \<open>The initial state of lines 37--54.\<close>

definition initial_layers :: toggles where
  "initial_layers =
     [''waypoints'' \<mapsto> True, ''obstacles'' \<mapsto> True, ''airspace'' \<mapsto> True,
      ''SID'' \<mapsto> False, ''STAR'' \<mapsto> False, ''APPROACH'' \<mapsto> True]"

definition initial_obstacleTypes :: toggles where
  "initial_obstacleTypes =
     [''Building'' \<mapsto> True, ''Tower'' \<mapsto> True, ''Natural'' \<mapsto> True,
      ''Tree'' \<mapsto> True, ''Navaid'' \<mapsto> True, ''ETC'' \<mapsto> True]"

text \<open>
  The two toggle handlers of lines 350--356: \<^verbatim>\<open>{...prev, [key]: !prev[key]}\<close>. The panel
  offers a toggle for each key of \<open>obstacleTypes\<close> only.
\<close>

definition toggleObstacleType :: "string \<Rightarrow> toggles \<Rightarrow> toggles" where
  "toggleObstacleType ty prev = prev(ty \<mapsto> \<not> truthy (js_get prev ty))"

definition toggleLayer :: "string \<Rightarrow> toggles \<Rightarrow> toggles" where
  "toggleLayer layer prev = prev(layer \<mapsto> \<not> truthy (js_get prev layer))"

text \<open>
  The loader's initialisation of \<open>waypointSources\<close> (lines 70--76):
  \<^verbatim>\<open>if (!sources[src]) sources[src] = true\<close> for every source tag of every waypoint,
  starting from the empty object.
\<close>

definition register_source :: "string \<Rightarrow> toggles \<Rightarrow> toggles" where
  "register_source src sources =
     (if \<not> truthy (js_get sources src) then sources(src \<mapsto> True) else sources)"

definition loaded_waypointSources :: "(string \<times> waypoint) list \<Rightarrow> toggles" where
  "loaded_waypointSources entries =
     fold (\<lambda>entry sources. fold register_source (wp_sources (snd entry)) sources) entries
       Map.empty"

text \<open>
  The viewer's entity collection, in insertion order, and the four lists of
  \<^verbatim>\<open>entitiesRef.current\<close>.
\<close>

record scene =
  viewer_entities :: "entity list"
  ref_waypoints :: "entity list"
  ref_obstacles :: "entity list"
  ref_airspace :: "entity list"
  ref_procedures :: "entity list"

section \<open>The render effect (App.jsx, lines 130--325)\<close>

text \<open>\<^verbatim>\<open>viewer.entities.removeAll()\<close> and the reset of \<^verbatim>\<open>entitiesRef.current\<close> (lines 136--142).\<close>

definition entities_removeAll :: "scene \<Rightarrow> scene" where
  "entities_removeAll s =
     \<lparr>viewer_entities = [], ref_waypoints = [], ref_obstacles = [], ref_airspace = [],
      ref_procedures = []\<rparr>"

text \<open>\<^verbatim>\<open>viewer.entities.add(options)\<close>: the new entity goes to the end of the collection.\<close>

definition entities_add :: "entity \<Rightarrow> scene \<Rightarrow> scene" where
  "entities_add e s = s\<lparr>viewer_entities := viewer_entities s @ [e]\<rparr>"

definition runway_entity :: entity where
  "runway_entity =
     \<lparr>name = [Str ''Runway 18/36''],
      position = None, point = None, label = None, cylinder = None, polygon = None,
      polyline = Some
        \<lparr>positions = fromDegreesArray [(129.3505, 35.5890), (129.3530, 35.5978)],
         width = 15,
         polyline_material = Solid COLORS_runway,
         clampToGround = True\<rparr>,
      description = RunwayDescription\<rparr>"

definition addRunway :: "scene \<Rightarrow> scene" where
  "addRunway s = entities_add runway_entity s"

subsection \<open>Waypoints (lines 148--189)\<close>

definition waypoint_entity :: "string \<Rightarrow> waypoint \<Rightarrow> entity" where
  "waypoint_entity nm wp =
     (let altitude = or_number (wp_altitude wp) 100 in
      \<lparr>name = [Str nm],
       position = Some (fromDegrees (wp_lon wp) (wp_lat wp) altitude),
       point = Some
         \<lparr>pixelSize = 8, point_color = COLORS_waypoint, point_outlineColor = Color_BLACK,
          point_outlineWidth = 1\<rparr>,
       label = Some
         \<lparr>label_text = nm, font = ''12px sans-serif'', fillColor = Color_WHITE,
          label_outlineColor = Color_BLACK, label_outlineWidth = 2,
          style = FILL_AND_OUTLINE, verticalOrigin = BOTTOM, pixelOffset = (0, - 12),
          distanceDisplayCondition = (0, 50000)\<rparr>,
       cylinder = None, polygon = None, polyline = None,
       description =
         WaypointDescription nm (wp_lat wp) (wp_lon wp) altitude
           (join '', '' (wp_sources wp))\<rparr>)"

definition add_waypoint :: "(string \<Rightarrow> string) \<Rightarrow> filter_state \<Rightarrow> string \<times> waypoint \<Rightarrow> scene \<Rightarrow> scene" where
  "add_waypoint toLowerCase f entry s =
     (let nm = fst entry; wp = snd entry in
      if searchTerm f \<noteq> [] \<and> \<not> js_includes (toLowerCase nm) (toLowerCase (searchTerm f))
      then s
      else
        let hasActiveSource =
              list_ex (\<lambda>src. truthy (js_get (waypointSources f) src)) (wp_sources wp)
        in
          if \<not> hasActiveSource then s
          else
            let entity = waypoint_entity nm wp;
                s' = entities_add entity s
            in s'\<lparr>ref_waypoints := ref_waypoints s' @ [entity]\<rparr>)"

definition add_waypoints :: "(string \<Rightarrow> string) \<Rightarrow> aviation_data \<Rightarrow> filter_state \<Rightarrow> scene \<Rightarrow> scene" where
  "add_waypoints lc d f s =
     (if truthy (js_get (layers f) ''waypoints'')
      then fold (add_waypoint lc f) (data_waypoints d) s
      else s)"

subsection \<open>Obstacles (lines 192--232)\<close>

text \<open>The name prefix of an obstacle entity: three Hangul syllables (UTF-8), a space and \<open>#\<close>.\<close>

definition obstacle_name_prefix :: string where
  "obstacle_name_prefix =
     [CHR 0xEC, CHR 0x9E, CHR 0xA5, CHR 0xEC, CHR 0x95, CHR 0xA0, CHR 0xEB, CHR 0xAC,
      CHR 0xBC, CHR '' '', CHR ''#'']"

text \<open>
  \<^verbatim>\<open>const color = OBSTACLE_COLORS[obs.type] || COLORS.obstacle_etc\<close> followed by
  \<^verbatim>\<open>color.withAlpha(0.8)\<close>. For a type string that names a member of
  \<^verbatim>\<open>Object.prototype\<close> the lookup yields that member, which is truthy and has no
  method \<^verbatim>\<open>withAlpha\<close>: the call raises a \<^verbatim>\<open>TypeError\<close>.
\<close>

definition obstacle_color :: "string \<Rightarrow> js_error + color" where
  "obstacle_color t =
     (case js_get OBSTACLE_COLORS t of
        Own c \<Rightarrow> Inr c
      | Inherited \<Rightarrow> Inl TypeError
      | Undefined \<Rightarrow> Inr COLORS_obstacle_etc)"

definition obstacle_entity :: "obstacle \<Rightarrow> color \<Rightarrow> entity" where
  "obstacle_entity obs color =
     \<lparr>name = [Str obstacle_name_prefix, Str (obs_id obs)],
      position = Some (fromDegrees (obs_lon obs) (obs_lat obs) (obs_elevation obs / 2)),
      point = None,
      label = Some
        \<lparr>label_text = ''#'' @ obs_id obs, font = ''10px sans-serif'', fillColor = Color_WHITE,
         label_outlineColor = Color_BLACK, label_outlineWidth = 1,
         style = FILL_AND_OUTLINE, verticalOrigin = BOTTOM, pixelOffset = (0, - 10),
         distanceDisplayCondition = (0, 20000)\<rparr>,
      cylinder = Some
        \<lparr>cylinder_length = obs_elevation obs, topRadius = 20, bottomRadius = 30,
         cylinder_material = withAlpha color (8 / 10), cylinder_outline = True,
         cylinder_outlineColor = color\<rparr>,
      polygon = None, polyline = None,
      description =
        ObstacleDescription (obs_id obs) (obs_type obs) (obs_lat obs) (obs_lon obs)
          (obs_elevation obs)\<rparr>"

text \<open>One call of the \<^verbatim>\<open>forEach\<close> callback: the scene after it, or the error it raises.\<close>

definition add_obstacle :: "(string \<Rightarrow> string) \<Rightarrow> filter_state \<Rightarrow> obstacle \<Rightarrow> scene \<Rightarrow> js_error + scene" where
  "add_obstacle toLowerCase f obs s =
     (if \<not> truthy (js_get (obstacleTypes f) (obs_type obs)) then Inr s
      else if searchTerm f \<noteq> [] \<and>
              \<not> js_includes (toLowerCase (obs_id obs)) (toLowerCase (searchTerm f))
      then Inr s
      else
        case obstacle_color (obs_type obs) of
          Inl err \<Rightarrow> Inl err
        | Inr color \<Rightarrow>
            let entity = obstacle_entity obs color;
                s' = entities_add entity s
            in Inr (s'\<lparr>ref_obstacles := ref_obstacles s' @ [entity]\<rparr>))"

text \<open>
  The loop over the obstacles stops at the first error; the entities added before it stay
  in the viewer. The result is the scene reached and the error, if any.
\<close>

fun forEach_obstacle :: "(string \<Rightarrow> string) \<Rightarrow> filter_state \<Rightarrow> obstacle list \<Rightarrow> scene \<Rightarrow> scene \<times> js_error option" where
  "forEach_obstacle lc f [] s = (s, None)"
| "forEach_obstacle lc f (obs # rest) s =
     (case add_obstacle lc f obs s of
        Inl err \<Rightarrow> (s, Some err)
      | Inr s' \<Rightarrow> forEach_obstacle lc f rest s')"

definition add_obstacles :: "(string \<Rightarrow> string) \<Rightarrow> aviation_data \<Rightarrow> filter_state \<Rightarrow> scene \<Rightarrow> scene \<times> js_error option" where
  "add_obstacles lc d f s =
     (if truthy (js_get (layers f) ''obstacles'')
      then forEach_obstacle lc f (data_obstacles d) s
      else (s, None))"

subsection \<open>Airspace (lines 235--261)\<close>

definition airspace_entity :: "airspace_zone \<Rightarrow> coord list \<Rightarrow> entity" where
  "airspace_entity zone ring =
     (let positions =
            map (\<lambda>coord. fromDegrees (fst coord) (snd coord) (or_number (as_top_alt zone) 3000))
              ring
      in
      \<lparr>name = [Str (or_str (as_name zone) ''Airspace'')],
       position = None, point = None, label = None, cylinder = None,
       polygon = Some
         \<lparr>hierarchy = positions, polygon_material = COLORS_airspace, polygon_outline = True,
          polygon_outlineColor = fromCssColorString ''#E91E63'',
          extrudedHeight = or_number (as_top_alt zone) 3000,
          polygon_height = or_number (as_base_alt zone) 0\<rparr>,
       polyline = None,
       description =
         AirspaceDescription (or_str (as_name zone) ''Airspace'')
           (or_number (as_base_alt zone) 0) (or_number (as_top_alt zone) 0)\<rparr>)"

text \<open>
  \<^verbatim>\<open>if (!as.coordinates || !as.coordinates[0]) return;\<close> A missing array and an array
  without a first element are skipped; a first ring is an array and therefore truthy,
  also when it is empty.
\<close>

definition add_airspace_zone :: "airspace_zone \<Rightarrow> scene \<Rightarrow> scene" where
  "add_airspace_zone zone s =
     (case as_coordinates zone of
        None \<Rightarrow> s
      | Some [] \<Rightarrow> s
      | Some (ring # rings) \<Rightarrow>
          let entity = airspace_entity zone ring;
              s' = entities_add entity s
          in s'\<lparr>ref_airspace := ref_airspace s' @ [entity]\<rparr>)"

definition add_airspace :: "aviation_data \<Rightarrow> filter_state \<Rightarrow> scene \<Rightarrow> scene" where
  "add_airspace d f s =
     (if truthy (js_get (layers f) ''airspace'')
      then (case data_airspace d of None \<Rightarrow> s | Some zones \<Rightarrow> fold add_airspace_zone zones s)
      else s)"

subsection \<open>Procedures (lines 264--323)\<close>

definition route_entity :: "string \<Rightarrow> procedure \<Rightarrow> coord list \<Rightarrow> entity" where
  "route_entity procType proc coords =
     (let color = COLORS procType;
          positions =
            map (\<lambda>(idx, coord).
                   let altitude = 500 + (real idx * 50)
                   in fromDegrees (fst coord) (snd coord) altitude)
              (enumerate 0 coords)
      in
      \<lparr>name = [Str (proc_name proc)],
       position = None, point = None, label = None, cylinder = None, polygon = None,
       polyline = Some
         \<lparr>positions = positions, width = 4,
          polyline_material = PolylineGlow (3 / 10) color, clampToGround = False\<rparr>,
       description = ProcedureDescription (proc_name proc) procType (proc_table proc)\<rparr>)"

definition or_NA :: "number option \<Rightarrow> number option" where
  "or_NA x = (if truthy_num x then x else None)"

definition leg_entity :: "string \<Rightarrow> procedure \<Rightarrow> nat \<Rightarrow> leg \<Rightarrow> coord list \<Rightarrow> entity" where
  "leg_entity procType proc idx lg coords =
     (let color = COLORS procType;
          positions =
            map (\<lambda>coord.
                   let altitude = or_number (js_or (leg_start_alt lg) (leg_end_alt lg)) 1000
                   in fromDegrees (fst coord) (snd coord) altitude)
              coords;
          seq = or_number (leg_seq lg) (real idx + 1)
      in
      \<lparr>name = [Str (proc_name proc), Str '' - Leg '', Num seq],
       position = None, point = None, label = None, cylinder = None, polygon = None,
       polyline = Some
         \<lparr>positions = positions, width = 3, polyline_material = Solid color,
          clampToGround = False\<rparr>,
       description =
         LegDescription (proc_name proc) seq (or_NA (leg_start_alt lg))
           (or_NA (leg_end_alt lg))\<rparr>)"

definition push_procedure :: "entity \<Rightarrow> scene \<Rightarrow> scene" where
  "push_procedure entity s =
     (let s' = entities_add entity s in s'\<lparr>ref_procedures := ref_procedures s' @ [entity]\<rparr>)"

definition add_leg :: "string \<Rightarrow> procedure \<Rightarrow> nat \<times> leg \<Rightarrow> scene \<Rightarrow> scene" where
  "add_leg procType proc il s =
     (let idx = fst il; lg = snd il in
      case leg_coordinates lg of
        None \<Rightarrow> s
      | Some coords \<Rightarrow>
          if length coords < 2 then s
          else push_procedure (leg_entity procType proc idx lg coords) s)"

definition add_route :: "string \<Rightarrow> procedure \<Rightarrow> scene \<Rightarrow> scene" where
  "add_route procType proc s =
     (case proc_coordinates proc of
        None \<Rightarrow> s
      | Some coords \<Rightarrow>
          if length coords \<ge> 2 then push_procedure (route_entity procType proc coords) s
          else s)"

definition add_legs :: "string \<Rightarrow> procedure \<Rightarrow> scene \<Rightarrow> scene" where
  "add_legs procType proc s =
     (case proc_legs proc of
        None \<Rightarrow> s
      | Some legs \<Rightarrow> fold (add_leg procType proc) (enumerate 0 legs) s)"

definition add_procedure :: "string \<Rightarrow> procedure \<Rightarrow> scene \<Rightarrow> scene" where
  "add_procedure procType proc s = add_legs procType proc (add_route procType proc s)"

definition add_procType :: "aviation_data \<Rightarrow> filter_state \<Rightarrow> string \<Rightarrow> scene \<Rightarrow> scene" where
  "add_procType d f procType s =
     (if \<not> truthy (js_get (layers f) procType) then s
      else
        case data_procedures d procType of
          None \<Rightarrow> s
        | Some procs \<Rightarrow> fold (add_procedure procType) procs s)"

definition add_procedures :: "aviation_data \<Rightarrow> filter_state \<Rightarrow> scene \<Rightarrow> scene" where
  "add_procedures d f s = fold (add_procType d f) [''SID'', ''STAR'', ''APPROACH''] s"

subsection \<open>The whole effect\<close>

text \<open>
  The body of the effect once the viewer and the data exist: the scene it leaves in the
  viewer, and the error that ended it early, if any.
\<close>

definition render :: "(string \<Rightarrow> string) \<Rightarrow> aviation_data \<Rightarrow> filter_state \<Rightarrow> scene \<Rightarrow> scene \<times> js_error option" where
  "render lc d f s =
     (let s0 = entities_removeAll s;
          s1 = addRunway s0;
          s2 = add_waypoints lc d f s1
      in
        case add_obstacles lc d f s2 of
          (s3, Some err) \<Rightarrow> (s3, Some err)
        | (s3, None) \<Rightarrow> (add_procedures d f (add_airspace d f s3), None))"

text \<open>
  The guard of line 131: without a viewer or without data the effect returns at once
  and leaves the scene as it is.
\<close>

definition render_effect ::
  "(string \<Rightarrow> string) \<Rightarrow> bool \<Rightarrow> aviation_data option \<Rightarrow> filter_state \<Rightarrow> scene \<Rightarrow> scene \<times> js_error option" where
  "render_effect lc viewer_present data f s =
     (if \<not> viewer_present then (s, None)
      else case data of None \<Rightarrow> (s, None) | Some d \<Rightarrow> render lc d f s)"

text \<open>
  React runs the effect again whenever one of its dependencies changes; every run starts
  from the scene the previous run left behind. \<open>repeat_render lc d f n\<close> is \<open>n\<close> runs in a row
  on the same data and filter state; a run that raises ends the sequence.
\<close>

fun repeat_render :: "(string \<Rightarrow> string) \<Rightarrow> aviation_data \<Rightarrow> filter_state \<Rightarrow> nat \<Rightarrow> scene \<Rightarrow> scene \<times> js_error option" where
  "repeat_render lc d f 0 s = (s, None)"
| "repeat_render lc d f (Suc n) s =
     (case render lc d f s of
        (s', Some err) \<Rightarrow> (s', Some err)
      | (s', None) \<Rightarrow> repeat_render lc d f n s')"

section \<open>The scene in terms of the dataset\<close>

text \<open>
  The entities in the viewer after the effect has run on a previous scene \<open>s\<close>, and
  whether the effect ran to its end.
\<close>

definition rendered :: "(string \<Rightarrow> string) \<Rightarrow> aviation_data \<Rightarrow> filter_state \<Rightarrow> scene \<Rightarrow> entity list" where
  "rendered lc d f s = viewer_entities (fst (render lc d f s))"

definition layer_on :: "filter_state \<Rightarrow> string \<Rightarrow> bool" where
  "layer_on f k = truthy (js_get (layers f) k)"

text \<open>
  ``\<open>s\<close> contains \<open>t\<close> case-insensitively'': the lower-cased \<open>t\<close> is a contiguous
  part of the lower-cased \<open>s\<close>. The empty \<open>t\<close> counts as contained in every \<open>s\<close>.
\<close>

definition contains_ignoring_case :: "(string \<Rightarrow> string) \<Rightarrow> string \<Rightarrow> string \<Rightarrow> bool" where
  "contains_ignoring_case toLowerCase s t = (t = [] \<or> sublist (toLowerCase t) (toLowerCase s))"

text \<open>
  A source tag is active in the filter state: its toggle is there and is true.
\<close>

definition source_active :: "filter_state \<Rightarrow> string \<Rightarrow> bool" where
  "source_active f src = (waypointSources f src = Some True)"

text \<open>
  The test of line 156, \<^verbatim>\<open>waypointSources[src]\<close>, is truthy for an active tag, and also for
  a tag without a toggle that names a member of \<^verbatim>\<open>Object.prototype\<close>.
\<close>

definition source_passes :: "filter_state \<Rightarrow> string \<Rightarrow> bool" where
  "source_passes f src = truthy (js_get (waypointSources f) src)"

text \<open>A waypoint passes the layer toggle and the two filters of lines 148--157.\<close>

definition waypoint_visible :: "(string \<Rightarrow> string) \<Rightarrow> filter_state \<Rightarrow> string \<Rightarrow> waypoint \<Rightarrow> bool" where
  "waypoint_visible lc f nm wp =
     (layer_on f ''waypoints'' \<and> contains_ignoring_case lc nm (searchTerm f) \<and>
      list_ex (source_passes f) (wp_sources wp))"

definition waypoint_entities :: "(string \<Rightarrow> string) \<Rightarrow> aviation_data \<Rightarrow> filter_state \<Rightarrow> entity list" where
  "waypoint_entities lc d f =
     concat (map (\<lambda>(nm, wp). if waypoint_visible lc f nm wp then [waypoint_entity nm wp] else [])
       (data_waypoints d))"

text \<open>An obstacle passes the two filters of lines 194--198.\<close>

definition obstacle_passes :: "(string \<Rightarrow> string) \<Rightarrow> filter_state \<Rightarrow> obstacle \<Rightarrow> bool" where
  "obstacle_passes lc f obs =
     (truthy (js_get (obstacleTypes f) (obs_type obs)) \<and>
      contains_ignoring_case lc (obs_id obs) (searchTerm f))"

text \<open>An obstacle that passes the filters and whose colour lookup ends in the \<open>TypeError\<close>.\<close>

definition obstacle_throws :: "(string \<Rightarrow> string) \<Rightarrow> filter_state \<Rightarrow> obstacle \<Rightarrow> bool" where
  "obstacle_throws lc f obs = (obstacle_passes lc f obs \<and> obs_type obs \<in> set object_prototype_keys)"

definition obstacle_color_of :: "string \<Rightarrow> color" where
  "obstacle_color_of t = (case OBSTACLE_COLORS t of Some c \<Rightarrow> c | None \<Rightarrow> COLORS_obstacle_etc)"

definition obstacle_contribution :: "(string \<Rightarrow> string) \<Rightarrow> filter_state \<Rightarrow> obstacle \<Rightarrow> entity list" where
  "obstacle_contribution lc f obs =
     (if obstacle_passes lc f obs then [obstacle_entity obs (obstacle_color_of (obs_type obs))]
      else [])"

text \<open>The obstacles the loop reaches are those before the first one that raises.\<close>

definition obstacle_entities :: "(string \<Rightarrow> string) \<Rightarrow> aviation_data \<Rightarrow> filter_state \<Rightarrow> entity list" where
  "obstacle_entities lc d f =
     (if layer_on f ''obstacles''
      then concat (map (obstacle_contribution lc f)
             (takeWhile (\<lambda>obs. \<not> obstacle_throws lc f obs) (data_obstacles d)))
      else [])"

text \<open>The effect runs to its end: no obstacle it looks at raises the \<open>TypeError\<close>.\<close>

definition completes :: "(string \<Rightarrow> string) \<Rightarrow> aviation_data \<Rightarrow> filter_state \<Rightarrow> bool" where
  "completes lc d f =
     (if layer_on f ''obstacles''
      then list_all (\<lambda>obs. \<not> obstacle_throws lc f obs) (data_obstacles d)
      else True)"

text \<open>The zones of the dataset (none when \<^verbatim>\<open>data.airspace\<close> is missing).\<close>

definition zones_of :: "aviation_data \<Rightarrow> airspace_zone list" where
  "zones_of d = (case data_airspace d of None \<Rightarrow> [] | Some zones \<Rightarrow> zones)"

text \<open>The first ring of a zone, when its coordinates array exists and is not empty.\<close>

definition first_ring :: "airspace_zone \<Rightarrow> coord list option" where
  "first_ring zone =
     (case as_coordinates zone of None \<Rightarrow> None | Some [] \<Rightarrow> None | Some (ring # rings) \<Rightarrow> Some ring)"

text \<open>A zone has at least one non-empty coordinate ring.\<close>

definition has_nonempty_ring :: "airspace_zone \<Rightarrow> bool" where
  "has_nonempty_ring zone =
     (case as_coordinates zone of None \<Rightarrow> False | Some rings \<Rightarrow> list_ex (\<lambda>ring. ring \<noteq> []) rings)"

definition zone_entities :: "filter_state \<Rightarrow> airspace_zone \<Rightarrow> entity list" where
  "zone_entities f zone =
     (if layer_on f ''airspace''
      then (case first_ring zone of None \<Rightarrow> [] | Some ring \<Rightarrow> [airspace_entity zone ring])
      else [])"

definition airspace_entities :: "aviation_data \<Rightarrow> filter_state \<Rightarrow> entity list" where
  "airspace_entities d f = concat (map (zone_entities f) (zones_of d))"

text \<open>
  The procedures of the categories whose toggle is on, each with its category, in the
  order the effect visits them; and their legs, each with its index in the procedure.
\<close>

definition procType_procedures ::
  "aviation_data \<Rightarrow> filter_state \<Rightarrow> string \<Rightarrow> (string \<times> procedure) list" where
  "procType_procedures d f procType =
     (if layer_on f procType
      then (case data_procedures d procType of
              None \<Rightarrow> []
            | Some procs \<Rightarrow> map (Pair procType) procs)
      else [])"

definition enabled_procedures :: "aviation_data \<Rightarrow> filter_state \<Rightarrow> (string \<times> procedure) list" where
  "enabled_procedures d f =
     concat (map (procType_procedures d f) [''SID'', ''STAR'', ''APPROACH''])"

definition legs_of :: "procedure \<Rightarrow> (nat \<times> leg) list" where
  "legs_of proc = (case proc_legs proc of None \<Rightarrow> [] | Some legs \<Rightarrow> enumerate 0 legs)"

definition enabled_legs ::
  "aviation_data \<Rightarrow> filter_state \<Rightarrow> (string \<times> procedure \<times> nat \<times> leg) list" where
  "enabled_legs d f =
     concat (map (\<lambda>(procType, proc). map (\<lambda>(idx, lg). (procType, proc, idx, lg)) (legs_of proc))
       (enabled_procedures d f))"

text \<open>The route polyline of a procedure: one when it has two or more route coordinates.\<close>

definition route_entities :: "string \<Rightarrow> procedure \<Rightarrow> entity list" where
  "route_entities procType proc =
     (case proc_coordinates proc of
        None \<Rightarrow> []
      | Some coords \<Rightarrow> if 2 \<le> length coords then [route_entity procType proc coords] else [])"

text \<open>The polyline of a leg: one when it has two or more coordinates.\<close>

definition leg_entities :: "string \<Rightarrow> procedure \<Rightarrow> nat \<Rightarrow> leg \<Rightarrow> entity list" where
  "leg_entities procType proc idx lg =
     (case leg_coordinates lg of
        None \<Rightarrow> []
      | Some coords \<Rightarrow> if 2 \<le> length coords then [leg_entity procType proc idx lg coords] else [])"

definition procedure_contribution :: "string \<times> procedure \<Rightarrow> entity list" where
  "procedure_contribution =
     (\<lambda>(procType, proc).
        route_entities procType proc @
        concat (map (\<lambda>(idx, lg). leg_entities procType proc idx lg) (legs_of proc)))"

definition procedure_entities :: "aviation_data \<Rightarrow> filter_state \<Rightarrow> entity list" where
  "procedure_entities d f = concat (map procedure_contribution (enabled_procedures d f))"

text \<open>The kinds of entity, told apart by the graphics they carry.\<close>

definition is_point :: "entity \<Rightarrow> bool" where
  "is_point e = (point e \<noteq> None)"

definition is_cylinder :: "entity \<Rightarrow> bool" where
  "is_cylinder e = (cylinder e \<noteq> None)"

definition is_polygon :: "entity \<Rightarrow> bool" where
  "is_polygon e = (polygon e \<noteq> None)"

text \<open>Route polylines have width 4, leg polylines width 3 (the runway has width 15).\<close>

definition is_route :: "entity \<Rightarrow> bool" where
  "is_route e = (case polyline e of None \<Rightarrow> False | Some pl \<Rightarrow> width pl = 4)"

definition is_leg :: "entity \<Rightarrow> bool" where
  "is_leg e = (case polyline e of None \<Rightarrow> False | Some pl \<Rightarrow> width pl = 3)"

text \<open>The heights of the vertices of an entity's polyline.\<close>

definition polyline_heights :: "entity \<Rightarrow> number list" where
  "polyline_heights e = (case polyline e of None \<Rightarrow> [] | Some pl \<Rightarrow> map height (positions pl))"

definition polyline_positions :: "entity \<Rightarrow> cartesian3 list" where
  "polyline_positions e = (case polyline e of None \<Rightarrow> [] | Some pl \<Rightarrow> positions pl)"

text \<open>
  The altitude of a leg as the effect computes it: the start altitude when it is present
  and not zero, otherwise the end altitude when that is present and not zero, otherwise 1000.
\<close>

definition leg_altitude :: "leg \<Rightarrow> number" where
  "leg_altitude lg =
     (let fallback = (case leg_end_alt lg of None \<Rightarrow> 1000 | Some b \<Rightarrow> if b = 0 then 1000 else b)
      in case leg_start_alt lg of None \<Rightarrow> fallback | Some a \<Rightarrow> if a = 0 then fallback else a)"

text \<open>
  The altitude of a leg as the specification words it: the start altitude, or the end
  altitude when the start altitude is absent, or 1000 when both are absent.
\<close>

definition spec_leg_altitude :: "leg \<Rightarrow> number" where
  "spec_leg_altitude lg =
     (case leg_start_alt lg of
        Some a \<Rightarrow> a
      | None \<Rightarrow> (case leg_end_alt lg of Some b \<Rightarrow> b | None \<Rightarrow> 1000))"

definition empty_scene :: scene where
  "empty_scene =
     \<lparr>viewer_entities = [], ref_waypoints = [], ref_obstacles = [], ref_airspace = [],
      ref_procedures = []\<rparr>"

section \<open>An example dataset\<close>

text \<open>A small dataset and the filter state of a freshly loaded application.\<close>

definition example_waypoint :: waypoint where
  "example_waypoint = \<lparr>wp_lat = 35, wp_lon = 129, wp_altitude = None, wp_sources = [''NAV1'']\<rparr>"

definition example_obstacle :: obstacle where
  "example_obstacle =
     \<lparr>obs_id = ''42'', obs_type = ''Tower'', obs_lat = 1, obs_lon = 1, obs_elevation = 80\<rparr>"

definition example_zone :: airspace_zone where
  "example_zone =
     \<lparr>as_name = Some ''CTR'', as_base_alt = None, as_top_alt = Some 2000,
      as_coordinates = Some [[(129.3, 35.5), (129.4, 35.5), (129.4, 35.6)]]\<rparr>"

definition example_leg :: leg where
  "example_leg =
     \<lparr>leg_seq = None, leg_start_alt = Some 900, leg_end_alt = Some 300,
      leg_coordinates = Some [(129.35, 35.4), (129.35, 35.5)]\<rparr>"

definition short_leg :: leg where
  "short_leg =
     \<lparr>leg_seq = Some 2, leg_start_alt = None, leg_end_alt = None,
      leg_coordinates = Some [(129.35, 35.5)]\<rparr>"

definition example_procedure :: procedure where
  "example_procedure =
     \<lparr>proc_name = ''ILS 36'', proc_table = ''T1'',
      proc_coordinates = Some [(129.35, 35.4), (129.35, 35.5), (129.35, 35.59)],
      proc_legs = Some [example_leg, short_leg]\<rparr>"

definition example_data :: aviation_data where
  "example_data =
     \<lparr>data_waypoints = [(''ALPHA'', example_waypoint)],
      data_obstacles = [example_obstacle],
      data_airspace = Some [example_zone],
      data_procedures = [''APPROACH'' \<mapsto> [example_procedure]]\<rparr>"

definition example_filters :: filter_state where
  "example_filters =
     \<lparr>layers = initial_layers, waypointSources = [''NAV1'' \<mapsto> True],
      obstacleTypes = initial_obstacleTypes, searchTerm = ''''\<rparr>"

definition sea_level_waypoint :: waypoint where
  "sea_level_waypoint =
     \<lparr>wp_lat = 35.5, wp_lon = 129.5, wp_altitude = Some 0, wp_sources = [''NAV1'']\<rparr>"

definition sea_level_data :: aviation_data where
  "sea_level_data =
     \<lparr>data_waypoints = [(''ALPHA'', example_waypoint), (''BRAVO'', sea_level_waypoint)],
      data_obstacles = [], data_airspace = None, data_procedures = Map.empty\<rparr>"

text \<open>Datasets on which the code departs from the specification.\<close>

definition empty_ring_zone :: airspace_zone where
  "empty_ring_zone =
     \<lparr>as_name = Some ''R1'', as_base_alt = None, as_top_alt = None, as_coordinates = Some [[]]\<rparr>"

definition empty_ring_data :: aviation_data where
  "empty_ring_data =
     \<lparr>data_waypoints = [], data_obstacles = [], data_airspace = Some [empty_ring_zone],
      data_procedures = Map.empty\<rparr>"

definition zero_start_leg :: leg where
  "zero_start_leg =
     \<lparr>leg_seq = None, leg_start_alt = Some 0, leg_end_alt = None,
      leg_coordinates = Some [(129.35, 35.4), (129.35, 35.5)]\<rparr>"

definition departure_leg :: leg where
  "departure_leg =
     \<lparr>leg_seq = None, leg_start_alt = Some 3000, leg_end_alt = None,
      leg_coordinates = Some [(129.35, 35.6), (129.35, 35.7)]\<rparr>"

definition zero_start_data :: aviation_data where
  "zero_start_data =
     \<lparr>data_waypoints = [], data_obstacles = [], data_airspace = None,
      data_procedures =
        [''SID'' \<mapsto> [\<lparr>proc_name = ''DEP 1'', proc_table = ''T2'', proc_coordinates = None,
                       proc_legs = Some [departure_leg]\<rparr>],
         ''APPROACH'' \<mapsto> [\<lparr>proc_name = ''ILS 36'', proc_table = ''T1'', proc_coordinates = None,
                            proc_legs = Some [zero_start_leg]\<rparr>]]\<rparr>"

definition crane_obstacle :: obstacle where
  "crane_obstacle =
     \<lparr>obs_id = ''43'', obs_type = ''Crane'', obs_lat = 35.6, obs_lon = 129.3, obs_elevation = 120\<rparr>"

definition crane_data :: aviation_data where
  "crane_data =
     \<lparr>data_waypoints = [], data_obstacles = [crane_obstacle], data_airspace = None,
      data_procedures = Map.empty\<rparr>"

definition constructor_obstacle :: obstacle where
  "constructor_obstacle =
     \<lparr>obs_id = ''44'', obs_type = ''constructor'', obs_lat = 35.6, obs_lon = 129.3,
      obs_elevation = 120\<rparr>"

definition constructor_data :: aviation_data where
  "constructor_data =
     \<lparr>data_waypoints = [], data_obstacles = [constructor_obstacle], data_airspace = None,
      data_procedures = Map.empty\<rparr>"

definition mixed_obstacle_data :: aviation_data where
  "mixed_obstacle_data =
     \<lparr>data_waypoints = [], data_obstacles = [crane_obstacle, example_obstacle],
      data_airspace = None, data_procedures = Map.empty\<rparr>"

definition search_four :: filter_state where
  "search_four = example_filters\<lparr>searchTerm := ''4''\<rparr>"

definition tostring_waypoint :: waypoint where
  "tostring_waypoint =
     \<lparr>wp_lat = 35.2, wp_lon = 129.2, wp_altitude = None, wp_sources = [''toString'']\<rparr>"

definition tostring_data :: aviation_data where
  "tostring_data =
     \<lparr>data_waypoints = [(''ALPHA'', example_waypoint), (''TANGO'', tostring_waypoint)],
      data_obstacles = [], data_airspace = None, data_procedures = Map.empty\<rparr>"

text \<open>The filter state the application builds for that dataset, and one with its only toggle off.\<close>

definition tostring_loaded :: filter_state where
  "tostring_loaded =
     \<lparr>layers = initial_layers,
      waypointSources = loaded_waypointSources (data_waypoints tostring_data),
      obstacleTypes = initial_obstacleTypes, searchTerm = []\<rparr>"

definition sources_off :: filter_state where
  "sources_off =
     \<lparr>layers = initial_layers, waypointSources = [''NAV1'' \<mapsto> False],
      obstacleTypes = initial_obstacleTypes, searchTerm = []\<rparr>"

text \<open>The example dataset with an obstacle whose type names a member of \<open>Object.prototype\<close>.\<close>

definition abort_data :: aviation_data where
  "abort_data =
     \<lparr>data_waypoints = [(''ALPHA'', example_waypoint)],
      data_obstacles = [constructor_obstacle],
      data_airspace = Some [example_zone],
      data_procedures = [''APPROACH'' \<mapsto> [example_procedure]]\<rparr>"

section \<open>Strings\<close>

lemma js_includes_sublist: "js_includes hay needle \<longleftrightarrow> sublist needle hay"
  by (induction hay) (simp_all add: sublist_Cons_right)

lemma contains_ignoring_case_empty: "contains_ignoring_case lc s []"
  by (simp add: contains_ignoring_case_def)

lemma search_guard_iff:
  "(\<not> (t \<noteq> [] \<and> \<not> js_includes (lc s) (lc t))) \<longleftrightarrow> contains_ignoring_case lc s t"
  by (auto simp add: contains_ignoring_case_def js_includes_sublist)

section \<open>The loops of the effect\<close>

text \<open>
  Every loop of the effect only appends to the viewer's collection; what a callback
  appends depends on the record it visits and on the filter state, not on the scene.
\<close>

lemma fold_viewer_entities:
  assumes "\<And>x s. viewer_entities (step x s) = viewer_entities s @ g x"
  shows "viewer_entities (fold step xs s) = viewer_entities s @ concat (map g xs)"
  using assms by (induction xs arbitrary: s) simp_all

lemma viewer_entities_add [simp]:
  "viewer_entities (entities_add e s) = viewer_entities s @ [e]"
  by (simp add: entities_add_def)

lemma viewer_entities_push_procedure [simp]:
  "viewer_entities (push_procedure e s) = viewer_entities s @ [e]"
  by (simp add: push_procedure_def Let_def)

lemma list_ex_sources:
  "list_ex (\<lambda>src. truthy (js_get (waypointSources f) src)) xs = list_ex (source_passes f) xs"
  by (induction xs) (simp_all add: source_passes_def)

lemma add_waypoint_entities:
  "viewer_entities (add_waypoint lc f (nm, wp) s) =
     viewer_entities s @
       (if contains_ignoring_case lc nm (searchTerm f) \<and> list_ex (source_passes f) (wp_sources wp)
        then [waypoint_entity nm wp] else [])"
  using search_guard_iff [where t = "searchTerm f" and s = nm and lc = lc]
  by (auto simp add: add_waypoint_def Let_def list_ex_sources)

lemma add_waypoints_entities:
  "viewer_entities (add_waypoints lc d f s) = viewer_entities s @ waypoint_entities lc d f"
proof (cases "layer_on f ''waypoints''")
  case True
  have step: "\<And>x s. viewer_entities (add_waypoint lc f x s) =
      viewer_entities s @ (\<lambda>(nm, wp). if waypoint_visible lc f nm wp then [waypoint_entity nm wp] else []) x"
    using True by (simp add: add_waypoint_entities waypoint_visible_def split: prod.split)
  show ?thesis
    using True fold_viewer_entities [of "add_waypoint lc f", OF step]
    by (simp add: add_waypoints_def waypoint_entities_def layer_on_def)
next
  case False
  then show ?thesis
    by (simp add: add_waypoints_def waypoint_entities_def layer_on_def waypoint_visible_def
        split: prod.split)
qed

lemma obstacle_color_throws:
  "obstacle_color t = Inl TypeError \<longleftrightarrow> t \<in> set object_prototype_keys"
  by (auto simp add: obstacle_color_def js_get_def OBSTACLE_COLORS_def object_prototype_keys_def
      split: option.splits)

lemma obstacle_color_ok:
  "t \<notin> set object_prototype_keys \<Longrightarrow> obstacle_color t = Inr (obstacle_color_of t)"
  by (auto simp add: obstacle_color_def js_get_def obstacle_color_of_def split: option.splits)

lemma add_obstacle_skip:
  "\<not> obstacle_passes lc f obs \<Longrightarrow> add_obstacle lc f obs s = Inr s"
  using search_guard_iff [where t = "searchTerm f" and s = "obs_id obs" and lc = lc]
  by (auto simp add: add_obstacle_def obstacle_passes_def)

lemma add_obstacle_throw:
  "obstacle_throws lc f obs \<Longrightarrow> add_obstacle lc f obs s = Inl TypeError"
  using search_guard_iff [where t = "searchTerm f" and s = "obs_id obs" and lc = lc] obstacle_color_throws [of "obs_type obs"]
  by (auto simp add: add_obstacle_def obstacle_passes_def obstacle_throws_def)

lemma add_obstacle_emit:
  assumes "obstacle_passes lc f obs" and "\<not> obstacle_throws lc f obs"
  shows "\<exists>s'. add_obstacle lc f obs s = Inr s' \<and>
     viewer_entities s' = viewer_entities s @ [obstacle_entity obs (obstacle_color_of (obs_type obs))]"
proof -
  from assms have "obs_type obs \<notin> set object_prototype_keys"
    by (simp add: obstacle_throws_def)
  then have "obstacle_color (obs_type obs) = Inr (obstacle_color_of (obs_type obs))"
    by (rule obstacle_color_ok)
  with assms(1) search_guard_iff [where t = "searchTerm f" and s = "obs_id obs" and lc = lc] show ?thesis
    by (auto simp add: add_obstacle_def obstacle_passes_def Let_def)
qed

lemma forEach_obstacle_entities:
  "viewer_entities (fst (forEach_obstacle lc f os s)) =
     viewer_entities s @
       concat (map (obstacle_contribution lc f) (takeWhile (\<lambda>obs. \<not> obstacle_throws lc f obs) os))"
proof (induction os arbitrary: s)
  case Nil
  then show ?case by simp
next
  case (Cons obs rest)
  show ?case
  proof (cases "obstacle_throws lc f obs")
    case True
    then show ?thesis by (simp add: add_obstacle_throw)
  next
    case nothrow: False
    show ?thesis
    proof (cases "obstacle_passes lc f obs")
      case True
      with nothrow obtain s' where s': "add_obstacle lc f obs s = Inr s'"
        "viewer_entities s' = viewer_entities s @ [obstacle_entity obs (obstacle_color_of (obs_type obs))]"
        using add_obstacle_emit by blast
      with True nothrow Cons.IH [of s'] show ?thesis
        by (simp add: obstacle_contribution_def)
    next
      case False
      with nothrow Cons.IH [of s] show ?thesis
        by (simp add: add_obstacle_skip obstacle_contribution_def)
    qed
  qed
qed

lemma forEach_obstacle_error:
  "snd (forEach_obstacle lc f os s) =
     (if list_all (\<lambda>obs. \<not> obstacle_throws lc f obs) os then None else Some TypeError)"
proof (induction os arbitrary: s)
  case Nil
  then show ?case by simp
next
  case (Cons obs rest)
  show ?case
  proof (cases "obstacle_throws lc f obs")
    case True
    then show ?thesis by (simp add: add_obstacle_throw)
  next
    case nothrow: False
    show ?thesis
    proof (cases "obstacle_passes lc f obs")
      case True
      with nothrow obtain s' where "add_obstacle lc f obs s = Inr s'"
        using add_obstacle_emit by blast
      with nothrow Cons.IH [of s'] show ?thesis by simp
    next
      case False
      with nothrow Cons.IH [of s] show ?thesis by (simp add: add_obstacle_skip)
    qed
  qed
qed

lemma add_obstacles_entities:
  "viewer_entities (fst (add_obstacles lc d f s)) = viewer_entities s @ obstacle_entities lc d f"
  using forEach_obstacle_entities [of lc f "data_obstacles d" s]
  by (simp add: add_obstacles_def obstacle_entities_def layer_on_def obstacle_contribution_def [abs_def])

lemma add_obstacles_error:
  "snd (add_obstacles lc d f s) = (if completes lc d f then None else Some TypeError)"
  by (simp add: add_obstacles_def completes_def layer_on_def forEach_obstacle_error)

lemma add_airspace_zone_entities:
  "viewer_entities (add_airspace_zone zone s) =
     viewer_entities s @ (case first_ring zone of None \<Rightarrow> [] | Some ring \<Rightarrow> [airspace_entity zone ring])"
  by (simp add: add_airspace_zone_def first_ring_def Let_def split: option.split list.split)

lemma add_airspace_entities:
  "viewer_entities (add_airspace d f s) = viewer_entities s @ airspace_entities d f"
proof (cases "layer_on f ''airspace''")
  case True
  have step: "\<And>x s. viewer_entities (add_airspace_zone x s) = viewer_entities s @ zone_entities f x"
    using True by (simp add: add_airspace_zone_entities zone_entities_def)
  show ?thesis
    using True fold_viewer_entities [of add_airspace_zone, OF step]
    by (simp add: add_airspace_def airspace_entities_def zones_of_def layer_on_def
        split: option.split)
next
  case False
  then show ?thesis
    by (simp add: add_airspace_def airspace_entities_def zone_entities_def layer_on_def)
qed

lemma add_route_entities:
  "viewer_entities (add_route procType proc s) = viewer_entities s @ route_entities procType proc"
  by (simp add: add_route_def route_entities_def split: option.split)

lemma add_leg_entities:
  "viewer_entities (add_leg procType proc il s) =
     viewer_entities s @ (\<lambda>(idx, lg). leg_entities procType proc idx lg) il"
  by (cases il) (auto simp add: add_leg_def leg_entities_def Let_def split: option.split)

lemma add_legs_entities:
  "viewer_entities (add_legs procType proc s) =
     viewer_entities s @
       concat (map (\<lambda>(idx, lg). leg_entities procType proc idx lg) (legs_of proc))"
  using fold_viewer_entities [of "add_leg procType proc", OF add_leg_entities]
  by (simp add: add_legs_def legs_of_def split: option.split)

lemma add_procedure_entities:
  "viewer_entities (add_procedure procType proc s) =
     viewer_entities s @ procedure_contribution (procType, proc)"
  by (simp add: add_procedure_def add_legs_entities add_route_entities procedure_contribution_def)

lemma add_procType_entities:
  "viewer_entities (add_procType d f procType s) =
     viewer_entities s @ concat (map procedure_contribution (procType_procedures d f procType))"
proof -
  have step: "\<And>x s. viewer_entities (add_procedure procType x s) =
      viewer_entities s @ (\<lambda>proc. procedure_contribution (procType, proc)) x"
    by (simp add: add_procedure_entities)
  show ?thesis
    using fold_viewer_entities [of "add_procedure procType", OF step]
    by (simp add: add_procType_def procType_procedures_def layer_on_def comp_def split: option.split)
qed

lemma add_procedures_entities:
  "viewer_entities (add_procedures d f s) = viewer_entities s @ procedure_entities d f"
proof -
  have step: "\<And>x s. viewer_entities (add_procType d f x s) =
      viewer_entities s @ (\<lambda>pt. concat (map procedure_contribution (procType_procedures d f pt))) x"
    by (simp add: add_procType_entities)
  have "enabled_procedures d f = concat (map (procType_procedures d f) [''SID'', ''STAR'', ''APPROACH''])"
    by (simp add: enabled_procedures_def procType_procedures_def)
  then have "procedure_entities d f =
      concat (map procedure_contribution (concat (map (procType_procedures d f) [''SID'', ''STAR'', ''APPROACH''])))"
    by (simp add: procedure_entities_def procedure_contribution_def)
  then show ?thesis
    using fold_viewer_entities [of "add_procType d f", OF step, of "[''SID'', ''STAR'', ''APPROACH'']" s]
    by (simp add: add_procedures_def)
qed

lemma render_error: "snd (render lc d f s) = (if completes lc d f then None else Some TypeError)"
proof -
  let ?s2 = "add_waypoints lc d f (addRunway (entities_removeAll s))"
  obtain s3 err where s3: "add_obstacles lc d f ?s2 = (s3, err)"
    by (cases "add_obstacles lc d f ?s2")
  have err: "err = (if completes lc d f then None else Some TypeError)"
    using add_obstacles_error [of lc d f ?s2] s3 by simp
  show ?thesis
    using s3 err by (simp add: render_def Let_def)
qed

lemma rendered_eq:
  "rendered lc d f s =
     runway_entity # waypoint_entities lc d f @ obstacle_entities lc d f @
       (if completes lc d f then airspace_entities d f @ procedure_entities d f else [])"
proof -
  let ?s2 = "add_waypoints lc d f (addRunway (entities_removeAll s))"
  have s2: "viewer_entities ?s2 = runway_entity # waypoint_entities lc d f"
    by (simp add: add_waypoints_entities addRunway_def entities_removeAll_def)
  obtain s3 err where s3: "add_obstacles lc d f ?s2 = (s3, err)"
    by (cases "add_obstacles lc d f ?s2")
  have e3: "viewer_entities s3 = runway_entity # waypoint_entities lc d f @ obstacle_entities lc d f"
    using add_obstacles_entities [of lc d f ?s2] s3 s2 by simp
  have err: "err = (if completes lc d f then None else Some TypeError)"
    using add_obstacles_error [of lc d f ?s2] s3 by simp
  show ?thesis
    using s3 e3 err
    by (simp add: rendered_def render_def Let_def add_procedures_entities add_airspace_entities)
qed

section \<open>The entities of each kind in the viewer\<close>

lemma runway_kind:
  "\<not> is_point runway_entity" "\<not> is_cylinder runway_entity" "\<not> is_polygon runway_entity"
  "\<not> is_route runway_entity" "\<not> is_leg runway_entity"
  by (simp_all add: runway_entity_def is_point_def is_cylinder_def is_polygon_def is_route_def
      is_leg_def)

lemma waypoint_kind:
  "is_point (waypoint_entity nm wp)" "\<not> is_cylinder (waypoint_entity nm wp)"
  "\<not> is_polygon (waypoint_entity nm wp)" "\<not> is_route (waypoint_entity nm wp)"
  "\<not> is_leg (waypoint_entity nm wp)"
  by (simp_all add: waypoint_entity_def is_point_def is_cylinder_def is_polygon_def is_route_def
      is_leg_def Let_def)

lemma obstacle_kind:
  "\<not> is_point (obstacle_entity obs c)" "is_cylinder (obstacle_entity obs c)"
  "\<not> is_polygon (obstacle_entity obs c)" "\<not> is_route (obstacle_entity obs c)"
  "\<not> is_leg (obstacle_entity obs c)"
  by (simp_all add: obstacle_entity_def is_point_def is_cylinder_def is_polygon_def is_route_def
      is_leg_def)

lemma airspace_kind:
  "\<not> is_point (airspace_entity zone ring)" "\<not> is_cylinder (airspace_entity zone ring)"
  "is_polygon (airspace_entity zone ring)" "\<not> is_route (airspace_entity zone ring)"
  "\<not> is_leg (airspace_entity zone ring)"
  by (simp_all add: airspace_entity_def is_point_def is_cylinder_def is_polygon_def is_route_def
      is_leg_def Let_def)

lemma route_kind:
  "\<not> is_point (route_entity pt proc cs)" "\<not> is_cylinder (route_entity pt proc cs)"
  "\<not> is_polygon (route_entity pt proc cs)" "is_route (route_entity pt proc cs)"
  "\<not> is_leg (route_entity pt proc cs)"
  by (simp_all add: route_entity_def is_point_def is_cylinder_def is_polygon_def is_route_def
      is_leg_def Let_def)

lemma leg_kind:
  "\<not> is_point (leg_entity pt proc idx lg cs)" "\<not> is_cylinder (leg_entity pt proc idx lg cs)"
  "\<not> is_polygon (leg_entity pt proc idx lg cs)" "\<not> is_route (leg_entity pt proc idx lg cs)"
  "is_leg (leg_entity pt proc idx lg cs)"
  by (simp_all add: leg_entity_def is_point_def is_cylinder_def is_polygon_def is_route_def
      is_leg_def Let_def)

lemma filter_none: "(\<And>x. x \<in> set xs \<Longrightarrow> \<not> P x) \<Longrightarrow> filter P xs = []"
  by (induction xs) simp_all

lemma filter_all: "(\<And>x. x \<in> set xs \<Longrightarrow> P x) \<Longrightarrow> filter P xs = xs"
  by (induction xs) simp_all

lemma waypoint_entities_kind:
  assumes "e \<in> set (waypoint_entities lc d f)"
  shows "is_point e" "\<not> is_cylinder e" "\<not> is_polygon e" "\<not> is_route e" "\<not> is_leg e"
  using assms by (auto simp add: waypoint_entities_def waypoint_kind split: if_splits)

lemma obstacle_entities_kind:
  assumes "e \<in> set (obstacle_entities lc d f)"
  shows "\<not> is_point e" "is_cylinder e" "\<not> is_polygon e" "\<not> is_route e" "\<not> is_leg e"
  using assms
  by (auto simp add: obstacle_entities_def obstacle_contribution_def obstacle_kind split: if_splits)

lemma airspace_entities_kind:
  assumes "e \<in> set (airspace_entities d f)"
  shows "\<not> is_point e" "\<not> is_cylinder e" "is_polygon e" "\<not> is_route e" "\<not> is_leg e"
  using assms
  by (auto simp add: airspace_entities_def zone_entities_def airspace_kind
      split: if_splits option.splits)

lemma route_entities_kind:
  assumes "e \<in> set (route_entities pt proc)"
  shows "\<not> is_point e" "\<not> is_cylinder e" "\<not> is_polygon e" "is_route e" "\<not> is_leg e"
  using assms by (auto simp add: route_entities_def route_kind split: if_splits option.splits)

lemma leg_entities_kind:
  assumes "e \<in> set (leg_entities pt proc idx lg)"
  shows "\<not> is_point e" "\<not> is_cylinder e" "\<not> is_polygon e" "\<not> is_route e" "is_leg e"
  using assms by (auto simp add: leg_entities_def leg_kind split: if_splits option.splits)

lemma procedure_contribution_kind:
  assumes "e \<in> set (procedure_contribution pp)"
  shows "\<not> is_point e" "\<not> is_cylinder e" "\<not> is_polygon e"
  using assms route_entities_kind leg_entities_kind
  by (auto simp add: procedure_contribution_def split: prod.splits)

lemma procedure_entities_kind:
  assumes "e \<in> set (procedure_entities d f)"
  shows "\<not> is_point e" "\<not> is_cylinder e" "\<not> is_polygon e"
  using assms procedure_contribution_kind by (auto simp add: procedure_entities_def)

lemma points_of_rendered: "filter is_point (rendered lc d f s) = waypoint_entities lc d f"
  by (simp add: rendered_eq runway_kind filter_all [of _ is_point] filter_none [of _ is_point]
      waypoint_entities_kind obstacle_entities_kind airspace_entities_kind procedure_entities_kind)

lemma polygons_of_rendered:
  "completes lc d f \<Longrightarrow> filter is_polygon (rendered lc d f s) = airspace_entities d f"
  by (simp add: rendered_eq runway_kind filter_all [of _ is_polygon] filter_none [of _ is_polygon]
      waypoint_entities_kind obstacle_entities_kind airspace_entities_kind procedure_entities_kind)

lemma cylinders_of_rendered: "filter is_cylinder (rendered lc d f s) = obstacle_entities lc d f"
  by (simp add: rendered_eq runway_kind filter_all [of _ is_cylinder] filter_none [of _ is_cylinder]
      waypoint_entities_kind obstacle_entities_kind airspace_entities_kind procedure_entities_kind)

lemma filter_route_contribution:
  "filter is_route (procedure_contribution (pt, proc)) = route_entities pt proc"
proof -
  have "filter is_route (concat (map (\<lambda>(idx, lg). leg_entities pt proc idx lg) (legs_of proc))) = []"
    by (rule filter_none) (auto simp add: leg_entities_kind)
  moreover have "filter is_route (route_entities pt proc) = route_entities pt proc"
    by (rule filter_all) (simp add: route_entities_kind)
  ultimately show ?thesis by (simp add: procedure_contribution_def)
qed

lemma filter_leg_contribution:
  "filter is_leg (procedure_contribution (pt, proc)) =
     concat (map (\<lambda>(idx, lg). leg_entities pt proc idx lg) (legs_of proc))"
proof -
  have "filter is_leg (concat (map (\<lambda>(idx, lg). leg_entities pt proc idx lg) (legs_of proc))) =
      concat (map (\<lambda>(idx, lg). leg_entities pt proc idx lg) (legs_of proc))"
    by (rule filter_all) (auto simp add: leg_entities_kind)
  moreover have "filter is_leg (route_entities pt proc) = []"
    by (rule filter_none) (simp add: route_entities_kind)
  ultimately show ?thesis by (simp add: procedure_contribution_def)
qed

lemma concat_map_filter:
  "(\<And>x. x \<in> set xs \<Longrightarrow> filter P (g x) = h x) \<Longrightarrow>
     filter P (concat (map g xs)) = concat (map h xs)"
  by (induction xs) simp_all

lemma routes_of_procedures:
  "filter is_route (procedure_entities d f) =
     concat (map (\<lambda>(pt, proc). route_entities pt proc) (enabled_procedures d f))"
  unfolding procedure_entities_def
  by (rule concat_map_filter) (auto simp add: filter_route_contribution)

lemma concat_map_concat:
  "concat (map g (concat (map h xs))) = concat (map (\<lambda>x. concat (map g (h x))) xs)"
  by (induction xs) simp_all

lemma legs_of_procedures:
  "filter is_leg (procedure_entities d f) =
     concat (map (\<lambda>(pt, proc, idx, lg). leg_entities pt proc idx lg) (enabled_legs d f))"
proof -
  have "filter is_leg (procedure_entities d f) =
      concat (map (\<lambda>(pt, proc). concat (map (\<lambda>(idx, lg). leg_entities pt proc idx lg) (legs_of proc)))
        (enabled_procedures d f))"
    unfolding procedure_entities_def
    by (rule concat_map_filter) (auto simp add: filter_leg_contribution)
  also have "\<dots> = concat (map (\<lambda>(pt, proc, idx, lg). leg_entities pt proc idx lg) (enabled_legs d f))"
    unfolding enabled_legs_def concat_map_concat
    by (rule arg_cong [where f = concat]) (auto simp add: comp_def split: prod.splits)
  finally show ?thesis .
qed

lemma routes_of_rendered:
  "completes lc d f \<Longrightarrow> filter is_route (rendered lc d f s) =
     concat (map (\<lambda>(pt, proc). route_entities pt proc) (enabled_procedures d f))"
  by (simp add: rendered_eq runway_kind filter_none [of _ is_route] routes_of_procedures
      waypoint_entities_kind obstacle_entities_kind airspace_entities_kind)

lemma legs_of_rendered:
  "completes lc d f \<Longrightarrow> filter is_leg (rendered lc d f s) =
     concat (map (\<lambda>(pt, proc, idx, lg). leg_entities pt proc idx lg) (enabled_legs d f))"
  by (simp add: rendered_eq runway_kind filter_none [of _ is_leg] legs_of_procedures
      waypoint_entities_kind obstacle_entities_kind airspace_entities_kind)

section \<open>Waypoints\<close>

lemmas example_defs =
  example_data_def example_filters_def example_waypoint_def example_obstacle_def
  example_zone_def example_leg_def short_leg_def example_procedure_def
  initial_layers_def initial_obstacleTypes_def

lemmas lookup_defs =
  layer_on_def truthy_def js_get_def object_prototype_keys_def

lemma completes_example: "completes lc example_data example_filters"
  by (simp add: completes_def obstacle_throws_def example_defs lookup_defs)

lemma waypoint_entity_name: "name (waypoint_entity nm wp) = [Str nm]"
  by (simp add: waypoint_entity_def Let_def)

lemma waypoint_entity_label: "label (waypoint_entity nm wp) \<noteq> None"
  by (simp add: waypoint_entity_def Let_def)

lemma concat_map_if: "concat (map (\<lambda>x. if P x then [g x] else []) xs) = map g (filter P xs)"
  by (induction xs) simp_all

lemma waypoint_entities_map:
  "waypoint_entities lc d f =
     map (\<lambda>(nm, wp). waypoint_entity nm wp)
       (filter (\<lambda>(nm, wp). waypoint_visible lc f nm wp) (data_waypoints d))"
proof -
  have "(\<lambda>(nm, wp). if waypoint_visible lc f nm wp then [waypoint_entity nm wp] else []) =
        (\<lambda>x. if (\<lambda>(nm, wp). waypoint_visible lc f nm wp) x then [(\<lambda>(nm, wp). waypoint_entity nm wp) x] else [])"
    by (simp add: fun_eq_iff)
  then show ?thesis
    unfolding waypoint_entities_def by (simp only: concat_map_if)
qed

lemma waypoint_entities_label: "e \<in> set (waypoint_entities lc d f) \<Longrightarrow> label e \<noteq> None"
  using waypoint_entity_label by (auto simp add: waypoint_entities_map)

lemma named_point_iff:
  "(\<exists>e \<in> set (waypoint_entities lc d f). name e = [Str nm]) \<longleftrightarrow>
   (\<exists>wp. (nm, wp) \<in> set (data_waypoints d) \<and> waypoint_visible lc f nm wp)"
  by (force simp add: waypoint_entities_map waypoint_entity_name)

text \<open>
  What the effect does for a waypoint of the dataset (the names are the keys of an object,
  hence distinct): the viewer holds an entity with a point marker and a text label bearing
  the waypoint's name if and only if the waypoints layer is on, the name contains the
  search term case-insensitively, and the lookup of line 156 is truthy for at least one of
  the waypoint's source tags. The waypoints are added before any obstacle is looked at, so
  this holds whether or not the effect runs to its end.
\<close>

lemma waypoint_drawn_iff:
  assumes "(nm, wp) \<in> set (data_waypoints d)"
    and "distinct (map fst (data_waypoints d))"
  shows "(\<exists>e \<in> set (rendered lc d f s). point e \<noteq> None \<and> label e \<noteq> None \<and> name e = [Str nm]) \<longleftrightarrow>
         (layer_on f ''waypoints'' \<and> contains_ignoring_case lc nm (searchTerm f) \<and>
          (\<exists>src \<in> set (wp_sources wp). source_passes f src))"
proof -
  have only: "wp' = wp" if "(nm, wp') \<in> set (data_waypoints d)" for wp'
    using that assms by (meson eq_key_imp_eq_value)
  have "(\<exists>e \<in> set (rendered lc d f s). point e \<noteq> None \<and> label e \<noteq> None \<and> name e = [Str nm]) \<longleftrightarrow>
        (\<exists>e \<in> set (filter is_point (rendered lc d f s)). label e \<noteq> None \<and> name e = [Str nm])"
    by (auto simp add: is_point_def)
  also have "\<dots> \<longleftrightarrow> (\<exists>e \<in> set (waypoint_entities lc d f). label e \<noteq> None \<and> name e = [Str nm])"
    by (simp only: points_of_rendered)
  also have "\<dots> \<longleftrightarrow> (\<exists>e \<in> set (waypoint_entities lc d f). name e = [Str nm])"
    using waypoint_entities_label [of _ lc d f] by blast
  also have "\<dots> \<longleftrightarrow> waypoint_visible lc f nm wp"
    using named_point_iff [of lc d f nm] only assms(1) by blast
  finally show ?thesis
    by (simp add: waypoint_visible_def list_ex_iff)
qed

text \<open>
  The lookup is truthy for an active tag, and for a tag that has no toggle and names a
  member of \<open>Object.prototype\<close>; for no other tag.
\<close>

lemma source_passes_iff:
  "source_passes f src \<longleftrightarrow>
     source_active f src \<or> (waypointSources f src = None \<and> src \<in> set object_prototype_keys)"
  by (cases "waypointSources f src")
    (simp_all add: source_passes_def source_active_def js_get_def truthy_def)

text \<open>
  Hence, for a waypoint none of whose toggle-less source tags names a member of
  \<open>Object.prototype\<close>, the waypoint appears if and only if the layer is on, the name
  contains the search term case-insensitively, and one of its tags is active.
\<close>

lemma waypoint_appears_iff_active:
  assumes "(nm, wp) \<in> set (data_waypoints d)"
    and "distinct (map fst (data_waypoints d))"
    and "list_all (\<lambda>src. waypointSources f src \<noteq> None \<or> src \<notin> set object_prototype_keys)
           (wp_sources wp)"
  shows "(\<exists>e \<in> set (rendered lc d f s). point e \<noteq> None \<and> label e \<noteq> None \<and> name e = [Str nm]) \<longleftrightarrow>
         (layer_on f ''waypoints'' \<and> contains_ignoring_case lc nm (searchTerm f) \<and>
          (\<exists>src \<in> set (wp_sources wp). source_active f src))"
proof -
  have "(\<exists>src \<in> set (wp_sources wp). source_passes f src) \<longleftrightarrow>
        (\<exists>src \<in> set (wp_sources wp). source_active f src)"
    using assms(3) by (auto simp add: source_passes_iff list_all_iff)
  then show ?thesis
    using waypoint_drawn_iff [OF assms(1) assms(2), of lc f s] by simp
qed

text \<open>
  The search term is matched with the case folded: \<open>aLp\<close> finds \<open>ALPHA\<close>, \<open>zulu\<close> does not.
\<close>

lemma search_folds_case:
  "filter is_point
     (rendered toLowerCase_ascii example_data (example_filters\<lparr>searchTerm := ''aLp''\<rparr>) empty_scene) =
     [waypoint_entity ''ALPHA'' example_waypoint]"
  "filter is_point
     (rendered toLowerCase_ascii example_data (example_filters\<lparr>searchTerm := ''zulu''\<rparr>) empty_scene) =
     []"
  by (simp_all add: points_of_rendered waypoint_entities_def waypoint_visible_def example_defs
      lookup_defs source_passes_def contains_ignoring_case_def toLowerCase_ascii_def
      toLowerCase_ascii_char_def sublist_Cons_right)

lemma loaded_sources_tostring:
  "loaded_waypointSources (data_waypoints tostring_data) = [''NAV1'' \<mapsto> True]"
  by (simp add: loaded_waypointSources_def register_source_def tostring_data_def
      example_waypoint_def tostring_waypoint_def js_get_def truthy_def object_prototype_keys_def)

text \<open>
  Claim C1 fails on the code. The waypoint \<open>TANGO\<close> has the single source tag
  \<open>toString\<close>. The loader gives that tag no toggle, because the lookup
  \<^verbatim>\<open>sources['toString']\<close> already finds the member inherited from \<open>Object.prototype\<close>;
  so no source tag of \<open>TANGO\<close> is active in the filter state the application builds, nor in
  the one where the only toggle is off. The lookup of line 156 finds the same inherited
  member, and the effect draws \<open>TANGO\<close> under both filter states.
\<close>

theorem inherited_source_tag_is_drawn:
  "waypointSources tostring_loaded ''toString'' = None \<and>
   \<not> list_ex (source_active tostring_loaded) (wp_sources tostring_waypoint) \<and>
   filter is_point (rendered toLowerCase_ascii tostring_data tostring_loaded empty_scene) =
     [waypoint_entity ''ALPHA'' example_waypoint, waypoint_entity ''TANGO'' tostring_waypoint] \<and>
   \<not> list_ex (source_active sources_off) (wp_sources tostring_waypoint) \<and>
   layer_on sources_off ''waypoints'' \<and>
   contains_ignoring_case toLowerCase_ascii ''TANGO'' (searchTerm sources_off) \<and>
   filter is_point (rendered toLowerCase_ascii tostring_data sources_off empty_scene) =
     [waypoint_entity ''TANGO'' tostring_waypoint]"
proof -
  have src: "waypointSources tostring_loaded = [''NAV1'' \<mapsto> True]"
    by (simp add: tostring_loaded_def loaded_sources_tostring)
  have fl: "layers tostring_loaded = initial_layers" "searchTerm tostring_loaded = []"
    by (simp_all add: tostring_loaded_def)
  have dw: "data_waypoints tostring_data =
      [(''ALPHA'', example_waypoint), (''TANGO'', tostring_waypoint)]"
    by (simp add: tostring_data_def)
  have loaded:
    "filter is_point (rendered toLowerCase_ascii tostring_data tostring_loaded empty_scene) =
       [waypoint_entity ''ALPHA'' example_waypoint, waypoint_entity ''TANGO'' tostring_waypoint]"
    by (simp add: points_of_rendered waypoint_entities_def waypoint_visible_def
        contains_ignoring_case_def source_passes_def src fl dw
        tostring_waypoint_def example_waypoint_def initial_layers_def lookup_defs)
  have off:
    "filter is_point (rendered toLowerCase_ascii tostring_data sources_off empty_scene) =
       [waypoint_entity ''TANGO'' tostring_waypoint]"
    by (simp add: points_of_rendered waypoint_entities_def waypoint_visible_def
        contains_ignoring_case_def source_passes_def tostring_data_def
        tostring_waypoint_def example_waypoint_def sources_off_def initial_layers_def
        lookup_defs)
  have inactive:
    "waypointSources tostring_loaded ''toString'' = None"
    "\<not> list_ex (source_active tostring_loaded) (wp_sources tostring_waypoint)"
    "\<not> list_ex (source_active sources_off) (wp_sources tostring_waypoint)"
    by (simp_all add: src source_active_def tostring_waypoint_def sources_off_def)
  have rest:
    "layer_on sources_off ''waypoints''"
    "contains_ignoring_case toLowerCase_ascii ''TANGO'' (searchTerm sources_off)"
    by (simp_all add: sources_off_def initial_layers_def lookup_defs contains_ignoring_case_def)
  show ?thesis
    using loaded off inactive rest by simp
qed

section \<open>Airspace, legs and routes\<close>

lemmas render_defs =
  rendered_def render_def entities_removeAll_def addRunway_def entities_add_def
  add_waypoints_def add_waypoint_def add_obstacles_def add_obstacle_def add_airspace_def
  add_airspace_zone_def add_procedures_def add_procType_def add_procedure_def add_route_def
  add_legs_def add_leg_def push_procedure_def obstacle_color_def Let_def

lemmas kind_defs = is_point_def is_cylinder_def is_polygon_def is_route_def is_leg_def

lemmas entity_defs =
  runway_entity_def waypoint_entity_def obstacle_entity_def airspace_entity_def
  route_entity_def leg_entity_def

lemma zone_contribution:
  "zone_entities f zone =
     (case as_coordinates zone of
        None \<Rightarrow> []
      | Some [] \<Rightarrow> []
      | Some (ring # rings) \<Rightarrow> if layer_on f ''airspace'' then [airspace_entity zone ring] else [])"
  by (simp add: zone_entities_def first_ring_def split: option.split list.split)

text \<open>
  Claim C4, as amended. When the effect runs to its end (no obstacle raises), it raises
  no error and the polygon entities in the viewer are, zone by zone and in order: one
  extruded polygon for a zone if the airspace layer is on and the zone's coordinates array
  is present and has a first ring (which may itself be empty), and nothing otherwise. In
  particular a zone whose coordinates array is empty or missing is skipped silently.
\<close>

theorem airspace_polygon_iff_first_ring:
  assumes "completes lc d f"
  shows "snd (render lc d f s) = None \<and>
         filter is_polygon (rendered lc d f s) =
           concat (map (\<lambda>zone. case as_coordinates zone of
                                   None \<Rightarrow> []
                                 | Some [] \<Rightarrow> []
                                 | Some (ring # rings) \<Rightarrow>
                                     if layer_on f ''airspace'' then [airspace_entity zone ring]
                                     else [])
                     (zones_of d))"
  using assms
  by (simp add: render_error polygons_of_rendered airspace_entities_def zone_contribution [abs_def])

theorem airspace_polygon_iff_first_ring_witness:
  "completes toLowerCase_ascii example_data example_filters \<and>
   snd (render toLowerCase_ascii example_data example_filters empty_scene) = None \<and>
   filter is_polygon (rendered toLowerCase_ascii example_data example_filters empty_scene) =
     [airspace_entity example_zone [(129.3, 35.5), (129.4, 35.5), (129.4, 35.6)]]"
proof -
  have z: "zones_of example_data = [example_zone]"
    by (simp add: zones_of_def example_data_def)
  have l: "layer_on example_filters ''airspace''"
    by (simp add: example_filters_def initial_layers_def lookup_defs)
  have c: "as_coordinates example_zone = Some [[(129.3, 35.5), (129.4, 35.5), (129.4, 35.6)]]"
    by (simp add: example_zone_def)
  show ?thesis
    using airspace_polygon_iff_first_ring [OF completes_example, where lc = toLowerCase_ascii and s = empty_scene] completes_example
    by (simp add: z l c)
qed

text \<open>
  Claim C4 as stated fails: a zone whose only ring is empty has no non-empty ring, yet the
  effect adds a polygon entity (with an empty hierarchy) for it.
\<close>

theorem empty_ring_zone_is_drawn:
  "\<not> has_nonempty_ring empty_ring_zone \<and>
   layer_on example_filters ''airspace'' \<and>
   snd (render toLowerCase_ascii empty_ring_data example_filters empty_scene) = None \<and>
   filter is_polygon (rendered toLowerCase_ascii empty_ring_data example_filters empty_scene) =
     [airspace_entity empty_ring_zone []]"
  by (simp add: has_nonempty_ring_def empty_ring_zone_def empty_ring_data_def example_filters_def
      initial_layers_def lookup_defs render_defs kind_defs empty_scene_def runway_entity_def
      airspace_entity_def)

lemma leg_entity_positions:
  "polyline_positions (leg_entity pt proc idx lg coords) =
     map (\<lambda>c. fromDegrees (fst c) (snd c) (leg_altitude lg)) coords"
proof -
  have "or_number (js_or (leg_start_alt lg) (leg_end_alt lg)) 1000 = leg_altitude lg"
    by (simp add: or_number_def js_or_def truthy_num_def leg_altitude_def Let_def split: option.split)
  then show ?thesis
    by (simp add: leg_entity_def polyline_positions_def Let_def)
qed

lemma leg_contribution:
  "leg_entities pt proc idx lg =
     (case leg_coordinates lg of
        None \<Rightarrow> []
      | Some coords \<Rightarrow> if 2 \<le> length coords then [leg_entity pt proc idx lg coords] else [])"
  by (simp add: leg_entities_def)

text \<open>
  Claim C5, as amended. When the effect runs to its end, the leg polylines in the viewer
  are, leg by leg over the procedures of the categories whose toggle is on: exactly one
  polyline for a leg with two or more coordinates and nothing for any other leg. Every
  vertex of a leg's polyline lies at the altitude \<open>leg_altitude\<close>: the start altitude
  when it is present and not zero, otherwise the end altitude when that is present and
  not zero, otherwise 1000.
\<close>

theorem leg_polyline_constant_altitude:
  assumes "completes lc d f"
  shows "snd (render lc d f s) = None \<and>
         filter is_leg (rendered lc d f s) =
           concat (map (\<lambda>(procType, proc, idx, lg).
                          case leg_coordinates lg of
                            None \<Rightarrow> []
                          | Some coords \<Rightarrow>
                              if 2 \<le> length coords then [leg_entity procType proc idx lg coords]
                              else [])
                     (enabled_legs d f)) \<and>
         (\<forall>procType proc idx lg coords.
            polyline_positions (leg_entity procType proc idx lg coords) =
              map (\<lambda>c. fromDegrees (fst c) (snd c) (leg_altitude lg)) coords)"
  using assms
  by (simp add: render_error legs_of_rendered leg_contribution [abs_def] leg_entity_positions)

lemma enabled_legs_example:
  "enabled_legs example_data example_filters =
     [(''APPROACH'', example_procedure, 0, example_leg),
      (''APPROACH'', example_procedure, 1, short_leg)]"
  by (simp add: enabled_legs_def enabled_procedures_def procType_procedures_def legs_of_def
      example_data_def example_filters_def initial_layers_def lookup_defs example_procedure_def)

theorem leg_polyline_constant_altitude_witness:
  "completes toLowerCase_ascii example_data example_filters \<and>
   snd (render toLowerCase_ascii example_data example_filters empty_scene) = None \<and>
   map polyline_positions (filter is_leg (rendered toLowerCase_ascii example_data example_filters empty_scene)) =
     [[fromDegrees 129.35 35.4 900, fromDegrees 129.35 35.5 900]]"
proof -
  have c1: "leg_coordinates example_leg = Some [(129.35, 35.4), (129.35, 35.5)]"
    by (simp add: example_leg_def)
  have c2: "leg_coordinates short_leg = Some [(129.35, 35.5)]"
    by (simp add: short_leg_def)
  have a: "leg_altitude example_leg = 900"
    by (simp add: leg_altitude_def example_leg_def)
  show ?thesis
    using leg_polyline_constant_altitude [OF completes_example, where lc = toLowerCase_ascii and s = empty_scene] completes_example
    by (simp add: enabled_legs_example c1 c2 a)
qed

text \<open>
  Claim C5 as stated fails. With the initial layers (SID off, APPROACH on) the leg of the
  SID procedure has two coordinates and gets no polyline, and the leg of the approach
  whose start altitude is present and equal to 0 is drawn at 1000.
\<close>

theorem zero_start_altitude_is_replaced:
  "spec_leg_altitude zero_start_leg = 0 \<and>
   \<not> layer_on example_filters ''SID'' \<and>
   snd (render toLowerCase_ascii zero_start_data example_filters empty_scene) = None \<and>
   map polyline_heights (filter is_leg (rendered toLowerCase_ascii zero_start_data example_filters empty_scene)) =
     [[1000, 1000]]"
  by (simp add: spec_leg_altitude_def zero_start_leg_def departure_leg_def zero_start_data_def
      example_filters_def initial_layers_def initial_obstacleTypes_def lookup_defs render_defs
      kind_defs empty_scene_def runway_entity_def leg_entity_def polyline_heights_def
      or_number_def js_or_def truthy_num_def)

lemma route_entity_positions:
  "polyline_positions (route_entity pt proc coords) =
     map (\<lambda>(i, c). fromDegrees (fst c) (snd c) (500 + real i * 50)) (enumerate 0 coords)"
  by (simp add: route_entity_def polyline_positions_def Let_def)

lemma route_entity_vertex:
  assumes "i < length coords"
  shows "polyline_positions (route_entity pt proc coords) ! i =
           fromDegrees (fst (coords ! i)) (snd (coords ! i)) (500 + real i * 50)"
  using assms by (simp add: route_entity_positions nth_enumerate_eq)

lemma route_contribution:
  "route_entities pt proc =
     (case proc_coordinates proc of
        None \<Rightarrow> []
      | Some coords \<Rightarrow> if 2 \<le> length coords then [route_entity pt proc coords] else [])"
  by (simp add: route_entities_def)

text \<open>
  Routes. When the effect runs to its end, the route polylines in the viewer are,
  procedure by procedure over the categories whose toggle is on: exactly one polyline for
  a procedure with two or more route coordinates, and none for any other procedure. The
  polyline has one vertex per route coordinate, and the vertex at index \<open>i\<close> lies at
  altitude \<open>500 + i * 50\<close> above the \<open>i\<close>-th coordinate.
\<close>

theorem route_polyline_climbs:
  assumes "completes lc d f"
  shows "snd (render lc d f s) = None \<and>
         filter is_route (rendered lc d f s) =
           concat (map (\<lambda>(procType, proc).
                          case proc_coordinates proc of
                            None \<Rightarrow> []
                          | Some coords \<Rightarrow>
                              if 2 \<le> length coords then [route_entity procType proc coords]
                              else [])
                     (enabled_procedures d f)) \<and>
         (\<forall>procType proc coords.
            length (polyline_positions (route_entity procType proc coords)) = length coords \<and>
            (\<forall>i < length coords.
               polyline_positions (route_entity procType proc coords) ! i =
                 fromDegrees (fst (coords ! i)) (snd (coords ! i)) (500 + real i * 50)))"
  using assms
  by (simp add: render_error routes_of_rendered route_contribution [abs_def] route_entity_vertex)
     (simp add: route_entity_positions)

lemma enabled_procedures_example:
  "enabled_procedures example_data example_filters = [(''APPROACH'', example_procedure)]"
  by (simp add: enabled_procedures_def procType_procedures_def
      example_data_def example_filters_def initial_layers_def lookup_defs)

theorem route_polyline_climbs_witness:
  "completes toLowerCase_ascii example_data example_filters \<and>
   snd (render toLowerCase_ascii example_data example_filters empty_scene) = None \<and>
   map polyline_positions (filter is_route (rendered toLowerCase_ascii example_data example_filters empty_scene)) =
     [[fromDegrees 129.35 35.4 500, fromDegrees 129.35 35.5 550, fromDegrees 129.35 35.59 600]]"
proof -
  have c: "proc_coordinates example_procedure = Some [(129.35, 35.4), (129.35, 35.5), (129.35, 35.59)]"
    by (simp add: example_procedure_def)
  show ?thesis
    using route_polyline_climbs [OF completes_example, where lc = toLowerCase_ascii and s = empty_scene] completes_example
    by (simp add: enabled_procedures_example c route_entity_positions)
qed

text \<open>
  Claim C6 fails on the code. The approach procedure of \<open>abort_data\<close> is in a category
  whose toggle is on and has three route coordinates, but the obstacle of type
  \<open>constructor\<close> ends the effect in the \<open>TypeError\<close> of line 208 before the procedures are
  reached: the viewer holds no route polyline.
\<close>

theorem aborted_run_draws_no_route:
  "layer_on example_filters ''APPROACH'' \<and>
   data_procedures abort_data ''APPROACH'' = Some [example_procedure] \<and>
   proc_coordinates example_procedure =
     Some [(129.35, 35.4), (129.35, 35.5), (129.35, 35.59)] \<and>
   snd (render toLowerCase_ascii abort_data example_filters empty_scene) = Some TypeError \<and>
   filter is_route (rendered toLowerCase_ascii abort_data example_filters empty_scene) = []"
proof -
  have c: "\<not> completes toLowerCase_ascii abort_data example_filters"
    by (simp add: completes_def obstacle_throws_def obstacle_passes_def abort_data_def
        constructor_obstacle_def example_filters_def initial_layers_def
        initial_obstacleTypes_def lookup_defs contains_ignoring_case_def)
  have r: "filter is_route (rendered toLowerCase_ascii abort_data example_filters empty_scene) = []"
    using c
    by (simp add: rendered_eq runway_kind filter_none [of _ is_route]
        waypoint_entities_kind obstacle_entities_kind)
  show ?thesis
    using c r
    by (simp add: render_error abort_data_def example_procedure_def example_filters_def
        initial_layers_def lookup_defs)
qed

section \<open>Search term and repeated runs\<close>

lemma route_or_leg_of_procedures:
  "filter (\<lambda>e. is_route e \<or> is_leg e) (procedure_entities d f) = procedure_entities d f"
proof (rule filter_all)
  fix e
  assume "e \<in> set (procedure_entities d f)"
  then obtain pt proc where "e \<in> set (procedure_contribution (pt, proc))"
    by (auto simp add: procedure_entities_def)
  then show "is_route e \<or> is_leg e"
    using route_entities_kind(4) leg_entities_kind(5)
    by (auto simp add: procedure_contribution_def)
qed

lemma procedures_of_rendered:
  "completes lc d f \<Longrightarrow>
     filter (\<lambda>e. is_route e \<or> is_leg e) (rendered lc d f s) = procedure_entities d f"
  by (simp add: rendered_eq runway_kind route_or_leg_of_procedures
      filter_none [of _ "\<lambda>e. is_route e \<or> is_leg e"]
      waypoint_entities_kind obstacle_entities_kind airspace_entities_kind)

lemma airspace_entities_search:
  "airspace_entities d (f\<lparr>searchTerm := t\<rparr>) = airspace_entities d f"
  by (simp add: airspace_entities_def zone_entities_def [abs_def] layer_on_def)

lemma procedure_entities_search:
  "procedure_entities d (f\<lparr>searchTerm := t\<rparr>) = procedure_entities d f"
  by (simp add: procedure_entities_def enabled_procedures_def procType_procedures_def [abs_def]
      layer_on_def)

lemma add_airspace_search: "add_airspace d (f\<lparr>searchTerm := t\<rparr>) = add_airspace d f"
  by (simp add: fun_eq_iff add_airspace_def)

lemma add_procedures_search: "add_procedures d (f\<lparr>searchTerm := t\<rparr>) = add_procedures d f"
  by (simp add: fun_eq_iff add_procedures_def add_procType_def)

text \<open>
  Two filter states that differ only in the search term. The airspace block and the
  procedure block of the effect are the same state transformers under both: neither reads
  the search term. When the effect runs to its end under both, the viewer holds the same
  airspace polygons and the same procedure polylines (routes and legs, in the same order)
  after either run.
\<close>

theorem search_term_gates_neither_airspace_nor_procedures:
  "add_airspace d (f\<lparr>searchTerm := t\<rparr>) = add_airspace d f \<and>
   add_procedures d (f\<lparr>searchTerm := t\<rparr>) = add_procedures d f \<and>
   (completes lc d f \<and> completes lc d (f\<lparr>searchTerm := t\<rparr>) \<longrightarrow>
      snd (render lc d f s) = None \<and> snd (render lc d (f\<lparr>searchTerm := t\<rparr>) s') = None \<and>
      filter is_polygon (rendered lc d (f\<lparr>searchTerm := t\<rparr>) s') =
        filter is_polygon (rendered lc d f s) \<and>
      filter (\<lambda>e. is_route e \<or> is_leg e) (rendered lc d (f\<lparr>searchTerm := t\<rparr>) s') =
        filter (\<lambda>e. is_route e \<or> is_leg e) (rendered lc d f s))"
  by (simp add: add_airspace_search add_procedures_search render_error polygons_of_rendered
      procedures_of_rendered airspace_entities_search procedure_entities_search)

lemma completes_example_search:
  "completes lc example_data (example_filters\<lparr>searchTerm := ''zulu''\<rparr>)"
  by (simp add: completes_def obstacle_throws_def example_defs lookup_defs)

theorem search_term_gates_neither_airspace_nor_procedures_witness:
  "completes toLowerCase_ascii example_data example_filters \<and>
   completes toLowerCase_ascii example_data (example_filters\<lparr>searchTerm := ''zulu''\<rparr>) \<and>
   filter is_point (rendered toLowerCase_ascii example_data example_filters empty_scene) \<noteq>
     filter is_point (rendered toLowerCase_ascii example_data (example_filters\<lparr>searchTerm := ''zulu''\<rparr>) empty_scene) \<and>
   filter is_polygon (rendered toLowerCase_ascii example_data (example_filters\<lparr>searchTerm := ''zulu''\<rparr>) empty_scene) =
     filter is_polygon (rendered toLowerCase_ascii example_data example_filters empty_scene) \<and>
   filter (\<lambda>e. is_route e \<or> is_leg e)
       (rendered toLowerCase_ascii example_data (example_filters\<lparr>searchTerm := ''zulu''\<rparr>) empty_scene) =
     filter (\<lambda>e. is_route e \<or> is_leg e) (rendered toLowerCase_ascii example_data example_filters empty_scene)"
proof -
  have "filter is_point (rendered toLowerCase_ascii example_data example_filters empty_scene) \<noteq>
     filter is_point (rendered toLowerCase_ascii example_data (example_filters\<lparr>searchTerm := ''zulu''\<rparr>) empty_scene)"
    by (simp add: points_of_rendered waypoint_entities_def waypoint_visible_def example_defs
        lookup_defs source_passes_def contains_ignoring_case_def toLowerCase_ascii_def
        toLowerCase_ascii_char_def sublist_Cons_right)
  then show ?thesis
    using search_term_gates_neither_airspace_nor_procedures
      [where lc = toLowerCase_ascii and d = example_data and f = example_filters and t = "''zulu''" and s = empty_scene
        and s' = empty_scene]
      completes_example completes_example_search
    by simp
qed

text \<open>
  Claim C7 fails on the code. On \<open>abort_data\<close> the search term decides whether the
  obstacle of type \<open>constructor\<close>, whose identifier is \<open>44\<close>, reaches line 208. Under the
  empty term it does, the effect ends in the \<open>TypeError\<close> and the viewer holds neither the
  airspace polygon nor a procedure polyline. Under the term \<open>zulu\<close> the obstacle is skipped
  at line 196, the effect runs to its end and the viewer holds the polygon, the route and
  the leg.
\<close>

theorem search_term_decides_abort:
  "snd (render toLowerCase_ascii abort_data example_filters empty_scene) = Some TypeError \<and>
   filter is_polygon (rendered toLowerCase_ascii abort_data example_filters empty_scene) = [] \<and>
   filter is_route (rendered toLowerCase_ascii abort_data example_filters empty_scene) = [] \<and>
   filter is_leg (rendered toLowerCase_ascii abort_data example_filters empty_scene) = [] \<and>
   snd (render toLowerCase_ascii abort_data (example_filters\<lparr>searchTerm := ''zulu''\<rparr>) empty_scene) =
     None \<and>
   filter is_polygon
     (rendered toLowerCase_ascii abort_data (example_filters\<lparr>searchTerm := ''zulu''\<rparr>) empty_scene) =
     [airspace_entity example_zone [(129.3, 35.5), (129.4, 35.5), (129.4, 35.6)]] \<and>
   filter is_route
     (rendered toLowerCase_ascii abort_data (example_filters\<lparr>searchTerm := ''zulu''\<rparr>) empty_scene) =
     [route_entity ''APPROACH'' example_procedure
        [(129.35, 35.4), (129.35, 35.5), (129.35, 35.59)]] \<and>
   filter is_leg
     (rendered toLowerCase_ascii abort_data (example_filters\<lparr>searchTerm := ''zulu''\<rparr>) empty_scene) =
     [leg_entity ''APPROACH'' example_procedure 0 example_leg [(129.35, 35.4), (129.35, 35.5)]]"
proof -
  let ?zulu = "example_filters\<lparr>searchTerm := ''zulu''\<rparr>"
  have c: "\<not> completes toLowerCase_ascii abort_data example_filters"
    by (simp add: completes_def obstacle_throws_def obstacle_passes_def abort_data_def
        constructor_obstacle_def example_filters_def initial_layers_def
        initial_obstacleTypes_def lookup_defs contains_ignoring_case_def)
  have z: "completes toLowerCase_ascii abort_data ?zulu"
    by (simp add: completes_def obstacle_throws_def obstacle_passes_def abort_data_def
        constructor_obstacle_def example_filters_def initial_layers_def
        initial_obstacleTypes_def lookup_defs contains_ignoring_case_def
        toLowerCase_ascii_def toLowerCase_ascii_char_def sublist_Cons_right)
  have aborted:
    "filter is_polygon (rendered toLowerCase_ascii abort_data example_filters empty_scene) = []"
    "filter is_route (rendered toLowerCase_ascii abort_data example_filters empty_scene) = []"
    "filter is_leg (rendered toLowerCase_ascii abort_data example_filters empty_scene) = []"
    using c
    by (simp_all add: rendered_eq runway_kind filter_none [of _ is_polygon]
        filter_none [of _ is_route] filter_none [of _ is_leg]
        waypoint_entities_kind obstacle_entities_kind)
  have zones: "zones_of abort_data = [example_zone]"
    by (simp add: zones_of_def abort_data_def)
  have coords: "as_coordinates example_zone = Some [[(129.3, 35.5), (129.4, 35.5), (129.4, 35.6)]]"
    by (simp add: example_zone_def)
  have on: "layer_on ?zulu ''airspace''"
    by (simp add: example_filters_def initial_layers_def lookup_defs)
  have procs: "enabled_procedures abort_data ?zulu = [(''APPROACH'', example_procedure)]"
    by (simp add: enabled_procedures_def procType_procedures_def abort_data_def
        example_filters_def initial_layers_def lookup_defs)
  have legs: "enabled_legs abort_data ?zulu =
      [(''APPROACH'', example_procedure, 0, example_leg),
       (''APPROACH'', example_procedure, 1, short_leg)]"
    by (simp add: enabled_legs_def procs legs_of_def example_procedure_def)
  have pc: "proc_coordinates example_procedure =
      Some [(129.35, 35.4), (129.35, 35.5), (129.35, 35.59)]"
    by (simp add: example_procedure_def)
  have lc1: "leg_coordinates example_leg = Some [(129.35, 35.4), (129.35, 35.5)]"
    by (simp add: example_leg_def)
  have lc2: "leg_coordinates short_leg = Some [(129.35, 35.5)]"
    by (simp add: short_leg_def)
  have polygons:
    "filter is_polygon (rendered toLowerCase_ascii abort_data ?zulu empty_scene) =
       [airspace_entity example_zone [(129.3, 35.5), (129.4, 35.5), (129.4, 35.6)]]"
    using z
    by (simp add: polygons_of_rendered airspace_entities_def zone_entities_def first_ring_def
        zones coords on)
  have routes:
    "filter is_route (rendered toLowerCase_ascii abort_data ?zulu empty_scene) =
       [route_entity ''APPROACH'' example_procedure
          [(129.35, 35.4), (129.35, 35.5), (129.35, 35.59)]]"
    using z by (simp add: routes_of_rendered procs route_entities_def pc)
  have leglines:
    "filter is_leg (rendered toLowerCase_ascii abort_data ?zulu empty_scene) =
       [leg_entity ''APPROACH'' example_procedure 0 example_leg [(129.35, 35.4), (129.35, 35.5)]]"
    using z by (simp add: legs_of_rendered legs leg_entities_def lc1 lc2)
  show ?thesis
    using c z aborted polygons routes leglines by (simp add: render_error)
qed

lemma render_effect_guard:
  "render_effect lc False data f s = (s, None)"
  "render_effect lc True None f s = (s, None)"
  "render_effect lc True (Some d) f s = render lc d f s"
  by (simp_all add: render_effect_def)

lemma render_from_empty: "render lc d f s = render lc d f empty_scene"
  by (simp add: render_def entities_removeAll_def empty_scene_def)

text \<open>
  Claim C8. The effect is a function of the data and the filter state alone: whatever
  scene it starts from, and in particular when it is run a second time on the scene of
  the first run, it leaves the same scene and the same outcome, hence the same entities,
  in the same number and order, with the same attributes. (The identifiers the renderer
  generates for new entities are no part of the model.)
\<close>

theorem render_deterministic:
  "render lc d f s1 = render lc d f s2 \<and>
   render lc d f (fst (render lc d f s1)) = render lc d f s1 \<and>
   rendered lc d f s1 = rendered lc d f s2 \<and>
   length (rendered lc d f s1) = length (rendered lc d f s2)"
  using render_from_empty [of lc d f s1] render_from_empty [of lc d f s2]
    render_from_empty [of lc d f "fst (render lc d f s1)"]
  by (simp add: rendered_def)

lemma repeat_render_Suc: "repeat_render lc d f (Suc n) s = render lc d f s"
proof (induction n arbitrary: s)
  case 0
  show ?case by (simp split: prod.split option.split)
next
  case (Suc n)
  obtain s' err where r: "render lc d f s = (s', err)"
    by (cases "render lc d f s")
  show ?case
  proof (cases err)
    case None
    have "repeat_render lc d f (Suc (Suc n)) s = repeat_render lc d f (Suc n) s'"
      using r None by simp
    also have "\<dots> = render lc d f s'" by (rule Suc.IH)
    also have "\<dots> = render lc d f s"
      using render_from_empty [of lc d f s] render_from_empty [of lc d f s'] by simp
    finally show ?thesis .
  next
    case (Some e)
    then show ?thesis using r by simp
  qed
qed

text \<open>
  Claim C9. Any number \<open>n + 1\<close> of runs in a row, from any previous scene, leaves exactly
  the scene of a single run from the empty scene: the entities are replaced, not appended,
  and their number does not grow.
\<close>

theorem rerender_replaces:
  "repeat_render lc d f (Suc n) s = render lc d f empty_scene \<and>
   length (viewer_entities (fst (repeat_render lc d f (Suc n) s))) =
     length (rendered lc d f empty_scene)"
  using render_from_empty [of lc d f s]
  by (simp add: repeat_render_Suc rendered_def del: repeat_render.simps)

section \<open>Obstacles\<close>

lemma toggleLayer_flips:
  "prev layer = Some b \<Longrightarrow> toggleLayer layer prev layer = Some (\<not> b)"
  by (simp add: toggleLayer_def js_get_def truthy_def)

lemma toggleObstacleType_keys:
  "ty \<in> dom prev \<Longrightarrow> dom (toggleObstacleType ty prev) = dom prev"
  by (auto simp add: toggleObstacleType_def)

lemma toggleObstacleType_flips:
  "prev ty = Some b \<Longrightarrow> toggleObstacleType ty prev ty = Some (\<not> b)"
  by (simp add: toggleObstacleType_def js_get_def truthy_def)

lemma initial_obstacleTypes_keys:
  "dom initial_obstacleTypes = {''Building'', ''Tower'', ''Natural'', ''Tree'', ''Navaid'', ''ETC''}"
  by (auto simp add: initial_obstacleTypes_def split: if_splits)

lemma type_without_toggle_is_omitted:
  assumes "obstacleTypes f (obs_type obs) = None"
    and "obs_type obs \<notin> set object_prototype_keys"
  shows "add_obstacle lc f obs s = Inr s"
  using assms by (simp add: add_obstacle_def js_get_def truthy_def)

lemma obstacle_cylinders:
  assumes "completes lc d f"
  shows "filter is_cylinder (rendered lc d f s) =
           concat (map (\<lambda>obs. if layer_on f ''obstacles'' \<and>
                                  truthy (js_get (obstacleTypes f) (obs_type obs)) \<and>
                                  contains_ignoring_case lc (obs_id obs) (searchTerm f)
                               then [obstacle_entity obs (obstacle_color_of (obs_type obs))]
                               else [])
                     (data_obstacles d))"
proof (cases "layer_on f ''obstacles''")
  case True
  with assms have tw:
    "takeWhile (\<lambda>obs. \<not> obstacle_throws lc f obs) (data_obstacles d) = data_obstacles d"
    by (simp add: completes_def list_all_iff takeWhile_eq_all_conv)
  from True show ?thesis
    by (simp add: cylinders_of_rendered obstacle_entities_def tw
        obstacle_contribution_def [abs_def] obstacle_passes_def)
next
  case False
  then show ?thesis
    by (simp add: cylinders_of_rendered obstacle_entities_def)
qed

text \<open>
  Claim C3 fails on the code. With the obstacles layer on and the empty search term, an
  obstacle of the unrecognised type \<open>Crane\<close> has no entry in \<open>obstacleTypes\<close>; the guard of
  line 194 returns and no entity is added, so the fallback colour of line 200 is never
  used. An obstacle whose type names a member of \<open>Object.prototype\<close> passes the guard and
  the effect ends in a \<open>TypeError\<close>.
\<close>

theorem unknown_type_is_omitted:
  "layer_on example_filters ''obstacles'' \<and>
   contains_ignoring_case toLowerCase_ascii (obs_id crane_obstacle) (searchTerm example_filters) \<and>
   OBSTACLE_COLORS (obs_type crane_obstacle) = None \<and>
   render toLowerCase_ascii crane_data example_filters empty_scene =
     (empty_scene\<lparr>viewer_entities := [runway_entity]\<rparr>, None) \<and>
   snd (render toLowerCase_ascii constructor_data example_filters empty_scene) = Some TypeError"
  by (simp add: crane_obstacle_def crane_data_def constructor_obstacle_def constructor_data_def
      example_filters_def initial_layers_def initial_obstacleTypes_def lookup_defs render_defs
      empty_scene_def contains_ignoring_case_def toLowerCase_ascii_def OBSTACLE_COLORS_def)

text \<open>
  Claim C2 fails on the code for the same reason. Of two obstacles whose identifiers both
  contain the search term, the one of type \<open>Tower\<close> is drawn and the one of the
  unrecognised type \<open>Crane\<close> is not: a type without a toggle counts as switched off.
\<close>

theorem obstacle_without_toggle_is_omitted:
  "layer_on search_four ''obstacles'' \<and>
   obstacleTypes search_four (obs_type crane_obstacle) = None \<and>
   contains_ignoring_case toLowerCase_ascii (obs_id crane_obstacle) (searchTerm search_four) \<and>
   contains_ignoring_case toLowerCase_ascii (obs_id example_obstacle) (searchTerm search_four) \<and>
   filter is_cylinder (rendered toLowerCase_ascii mixed_obstacle_data search_four empty_scene) =
     [obstacle_entity example_obstacle COLORS_obstacle_tower]"
  by (simp add: search_four_def crane_obstacle_def mixed_obstacle_data_def example_obstacle_def
      example_filters_def initial_layers_def initial_obstacleTypes_def lookup_defs render_defs
      kind_defs empty_scene_def contains_ignoring_case_def toLowerCase_ascii_def toLowerCase_ascii_char_def
      sublist_Cons_right OBSTACLE_COLORS_def runway_entity_def obstacle_entity_def)

section \<open>The default altitude of a waypoint\<close>

lemma waypoint_visible_altitude:
  "waypoint_visible lc f nm (wp\<lparr>wp_altitude := a\<rparr>) = waypoint_visible lc f nm wp"
  by (simp add: waypoint_visible_def)

lemma named_point_is_waypoint_entity:
  assumes "(nm, wp) \<in> set (data_waypoints d)"
    and "distinct (map fst (data_waypoints d))"
    and "e \<in> set (rendered lc d f s)" and "point e \<noteq> None" and "name e = [Str nm]"
  shows "e = waypoint_entity nm wp"
proof -
  from assms(3,4) have "e \<in> set (filter is_point (rendered lc d f s))"
    by (simp add: is_point_def)
  then have "e \<in> set (waypoint_entities lc d f)"
    by (simp only: points_of_rendered)
  then obtain n' w' where nw: "(n', w') \<in> set (data_waypoints d)" "e = waypoint_entity n' w'"
    by (auto simp add: waypoint_entities_map)
  with assms(5) have "n' = nm"
    by (simp add: waypoint_entity_name)
  with nw(1) assms(1,2) have "w' = wp"
    by (meson eq_key_imp_eq_value)
  with nw(2) \<open>n' = nm\<close> show ?thesis by simp
qed

lemma named_point_exists_iff:
  assumes "(nm, wp) \<in> set (data_waypoints d)"
    and "distinct (map fst (data_waypoints d))"
  shows "(\<exists>e \<in> set (rendered lc d f s). point e \<noteq> None \<and> name e = [Str nm]) \<longleftrightarrow>
         waypoint_visible lc f nm wp"
proof -
  have only: "wp' = wp" if "(nm, wp') \<in> set (data_waypoints d)" for wp'
    using that assms by (meson eq_key_imp_eq_value)
  have "(\<exists>e \<in> set (rendered lc d f s). point e \<noteq> None \<and> name e = [Str nm]) \<longleftrightarrow>
        (\<exists>e \<in> set (filter is_point (rendered lc d f s)). name e = [Str nm])"
    by (auto simp add: is_point_def)
  also have "\<dots> \<longleftrightarrow> (\<exists>e \<in> set (waypoint_entities lc d f). name e = [Str nm])"
    by (simp only: points_of_rendered)
  also have "\<dots> \<longleftrightarrow> waypoint_visible lc f nm wp"
    using named_point_iff [of lc d f nm] only assms(1) by blast
  finally show ?thesis .
qed

text \<open>
  Claim C10. A waypoint of the dataset whose altitude is missing or 0; the names of the
  waypoints are the keys of one object, hence distinct. The viewer holds
  a point entity bearing its name exactly when the waypoint passes the filters, and every
  such entity in the viewer stands at height 100 over the waypoint's longitude and
  latitude, shows the altitude 100, and is in every attribute the entity of the same
  waypoint with altitude 100. Putting that waypoint in its place in the dataset changes
  nothing in the viewer.
\<close>

theorem falsy_altitude_defaults_to_100:
  assumes "wp_altitude wp = None \<or> wp_altitude wp = Some 0"
  shows "position (waypoint_entity nm wp) = Some (fromDegrees (wp_lon wp) (wp_lat wp) 100) \<and>
         description (waypoint_entity nm wp) =
           WaypointDescription nm (wp_lat wp) (wp_lon wp) 100 (join '', '' (wp_sources wp)) \<and>
         waypoint_entity nm wp = waypoint_entity nm (wp\<lparr>wp_altitude := Some 100\<rparr>) \<and>
         rendered lc (d\<lparr>data_waypoints := before @ (nm, wp) # after\<rparr>) f s =
           rendered lc (d\<lparr>data_waypoints := before @ (nm, wp\<lparr>wp_altitude := Some 100\<rparr>) # after\<rparr>) f s \<and>
         ((nm, wp) \<in> set (data_waypoints d) \<and> distinct (map fst (data_waypoints d)) \<longrightarrow>
            ((\<exists>e \<in> set (rendered lc d f s). point e \<noteq> None \<and> name e = [Str nm]) \<longleftrightarrow>
               waypoint_visible lc f nm wp) \<and>
            (\<forall>e \<in> set (rendered lc d f s).
               point e \<noteq> None \<and> name e = [Str nm] \<longrightarrow>
                 position e = Some (fromDegrees (wp_lon wp) (wp_lat wp) 100) \<and>
                 description e =
                   WaypointDescription nm (wp_lat wp) (wp_lon wp) 100
                     (join '', '' (wp_sources wp)) \<and>
                 e = waypoint_entity nm (wp\<lparr>wp_altitude := Some 100\<rparr>)))"
proof -
  have alt: "or_number (wp_altitude wp) 100 = 100"
    using assms by (auto simp add: or_number_def)
  have same: "waypoint_entity nm wp = waypoint_entity nm (wp\<lparr>wp_altitude := Some 100\<rparr>)"
    using alt by (simp add: waypoint_entity_def Let_def or_number_def)
  have pos: "position (waypoint_entity nm wp) = Some (fromDegrees (wp_lon wp) (wp_lat wp) 100)"
    using alt by (simp add: waypoint_entity_def Let_def)
  have des: "description (waypoint_entity nm wp) =
      WaypointDescription nm (wp_lat wp) (wp_lon wp) 100 (join '', '' (wp_sources wp))"
    using alt by (simp add: waypoint_entity_def Let_def)
  have vis: "waypoint_visible lc f nm (wp\<lparr>wp_altitude := Some 100\<rparr>) = waypoint_visible lc f nm wp"
    by (rule waypoint_visible_altitude)
  let ?d1 = "d\<lparr>data_waypoints := before @ (nm, wp) # after\<rparr>"
  let ?d2 = "d\<lparr>data_waypoints := before @ (nm, wp\<lparr>wp_altitude := Some 100\<rparr>) # after\<rparr>"
  have we: "waypoint_entities lc ?d1 f = waypoint_entities lc ?d2 f"
    by (simp add: waypoint_entities_def vis same [symmetric])
  have oe: "obstacle_entities lc ?d1 f = obstacle_entities lc ?d2 f"
    by (simp add: obstacle_entities_def)
  have co: "completes lc ?d1 f = completes lc ?d2 f"
    by (simp add: completes_def)
  have ae: "airspace_entities ?d1 f = airspace_entities ?d2 f"
    by (simp add: airspace_entities_def zones_of_def)
  have pe: "procedure_entities ?d1 f = procedure_entities ?d2 f"
    by (simp add: procedure_entities_def enabled_procedures_def procType_procedures_def)
  have surgery: "rendered lc ?d1 f s = rendered lc ?d2 f s"
    by (simp only: rendered_eq we oe co ae pe)
  have linked:
    "((\<exists>e \<in> set (rendered lc d f s). point e \<noteq> None \<and> name e = [Str nm]) \<longleftrightarrow>
        waypoint_visible lc f nm wp) \<and>
     (\<forall>e \<in> set (rendered lc d f s).
        point e \<noteq> None \<and> name e = [Str nm] \<longrightarrow>
          position e = Some (fromDegrees (wp_lon wp) (wp_lat wp) 100) \<and>
          description e =
            WaypointDescription nm (wp_lat wp) (wp_lon wp) 100 (join '', '' (wp_sources wp)) \<and>
          e = waypoint_entity nm (wp\<lparr>wp_altitude := Some 100\<rparr>))"
    if mem: "(nm, wp) \<in> set (data_waypoints d)" and dis: "distinct (map fst (data_waypoints d))"
  proof (intro conjI ballI impI)
    show "(\<exists>e \<in> set (rendered lc d f s). point e \<noteq> None \<and> name e = [Str nm]) \<longleftrightarrow>
        waypoint_visible lc f nm wp"
      by (rule named_point_exists_iff [OF mem dis])
  next
    fix e
    assume e: "e \<in> set (rendered lc d f s)" and pn: "point e \<noteq> None \<and> name e = [Str nm]"
    then have ent: "e = waypoint_entity nm wp"
      using named_point_is_waypoint_entity [OF mem dis e] by simp
    show "position e = Some (fromDegrees (wp_lon wp) (wp_lat wp) 100)"
      using ent pos by simp
    show "description e =
        WaypointDescription nm (wp_lat wp) (wp_lon wp) 100 (join '', '' (wp_sources wp))"
      using ent des by simp
    show "e = waypoint_entity nm (wp\<lparr>wp_altitude := Some 100\<rparr>)"
      using ent same by simp
  qed
  have l:
    "(nm, wp) \<in> set (data_waypoints d) \<and> distinct (map fst (data_waypoints d)) \<longrightarrow>
       ((\<exists>e \<in> set (rendered lc d f s). point e \<noteq> None \<and> name e = [Str nm]) \<longleftrightarrow>
          waypoint_visible lc f nm wp) \<and>
       (\<forall>e \<in> set (rendered lc d f s).
          point e \<noteq> None \<and> name e = [Str nm] \<longrightarrow>
            position e = Some (fromDegrees (wp_lon wp) (wp_lat wp) 100) \<and>
            description e =
              WaypointDescription nm (wp_lat wp) (wp_lon wp) 100 (join '', '' (wp_sources wp)) \<and>
            e = waypoint_entity nm (wp\<lparr>wp_altitude := Some 100\<rparr>))"
    by (intro impI, elim conjE) (rule linked)
  show ?thesis
    by (rule conjI [OF pos conjI [OF des conjI [OF same conjI [OF surgery l]]]])
qed

theorem falsy_altitude_defaults_to_100_witness:
  "(wp_altitude sea_level_waypoint = None \<or> wp_altitude sea_level_waypoint = Some 0) \<and>
   (''BRAVO'', sea_level_waypoint) \<in> set (data_waypoints sea_level_data) \<and>
   distinct (map fst (data_waypoints sea_level_data)) \<and>
   waypoint_visible toLowerCase_ascii example_filters ''BRAVO'' sea_level_waypoint \<and>
   (\<exists>e \<in> set (rendered toLowerCase_ascii sea_level_data example_filters empty_scene).
      point e \<noteq> None \<and> name e = [Str ''BRAVO''] \<and>
      position e = Some (fromDegrees 129.5 35.5 100) \<and>
      description e = WaypointDescription ''BRAVO'' 35.5 129.5 100 ''NAV1'')"
proof -
  have h: "wp_altitude sea_level_waypoint = None \<or> wp_altitude sea_level_waypoint = Some 0"
    by (simp add: sea_level_waypoint_def)
  have mem: "(''BRAVO'', sea_level_waypoint) \<in> set (data_waypoints sea_level_data)"
    by (simp add: sea_level_data_def)
  have dis: "distinct (map fst (data_waypoints sea_level_data))"
    by (simp add: sea_level_data_def)
  have vis: "waypoint_visible toLowerCase_ascii example_filters ''BRAVO'' sea_level_waypoint"
    by (simp add: waypoint_visible_def contains_ignoring_case_def source_passes_def
        sea_level_waypoint_def example_filters_def initial_layers_def lookup_defs)
  have fields: "wp_lon sea_level_waypoint = 129.5" "wp_lat sea_level_waypoint = 35.5"
    "wp_sources sea_level_waypoint = [''NAV1'']"
    by (simp_all add: sea_level_waypoint_def)
  note link = falsy_altitude_defaults_to_100
    [OF h, where nm = "''BRAVO''" and lc = toLowerCase_ascii and d = sea_level_data
       and f = example_filters and s = empty_scene,
     THEN conjunct2, THEN conjunct2, THEN conjunct2, THEN conjunct2, THEN mp,
     OF conjI [OF mem dis]]
  have "\<exists>e \<in> set (rendered toLowerCase_ascii sea_level_data example_filters empty_scene).
      point e \<noteq> None \<and> name e = [Str ''BRAVO'']"
    by (rule link [THEN conjunct1, THEN iffD2, OF vis])
  then obtain e where
    ein: "e \<in> set (rendered toLowerCase_ascii sea_level_data example_filters empty_scene)"
    and pn: "point e \<noteq> None \<and> name e = [Str ''BRAVO'']"
    by (rule bexE)
  have all:
    "position e = Some (fromDegrees (wp_lon sea_level_waypoint) (wp_lat sea_level_waypoint) 100) \<and>
      description e =
        WaypointDescription ''BRAVO'' (wp_lat sea_level_waypoint) (wp_lon sea_level_waypoint) 100
          (join '', '' (wp_sources sea_level_waypoint)) \<and>
      e = waypoint_entity ''BRAVO'' (sea_level_waypoint\<lparr>wp_altitude := Some 100\<rparr>)"
    by (rule link [THEN conjunct2, THEN bspec, OF ein, THEN mp, OF pn])
  have p: "position e = Some (fromDegrees 129.5 35.5 100)"
    using all [THEN conjunct1] by (simp only: fields)
  have ds: "description e = WaypointDescription ''BRAVO'' 35.5 129.5 100 ''NAV1''"
    using all [THEN conjunct2, THEN conjunct1] by (simp only: fields join.simps)
  have body: "point e \<noteq> None \<and> name e = [Str ''BRAVO''] \<and>
       position e = Some (fromDegrees 129.5 35.5 100) \<and>
       description e = WaypointDescription ''BRAVO'' 35.5 129.5 100 ''NAV1''"
    by (rule conjI [OF pn [THEN conjunct1] conjI [OF pn [THEN conjunct2] conjI [OF p ds]]])
  have "\<exists>e \<in> set (rendered toLowerCase_ascii sea_level_data example_filters empty_scene).
       point e \<noteq> None \<and> name e = [Str ''BRAVO''] \<and>
       position e = Some (fromDegrees 129.5 35.5 100) \<and>
       description e = WaypointDescription ''BRAVO'' 35.5 129.5 100 ''NAV1''"
    using body ein by (rule bexI [where x = e])
  with h mem dis vis show ?thesis
    by (intro conjI)
qed

end
